theory Spec2Isabelle
  imports Main
begin

section \<open>Python values the noxfile computes with\<close>

text \<open>
  The noxfile is a Python module for the nox task runner. Its session functions call
  \<^verbatim>\<open>session.install\<close>, \<^verbatim>\<open>session.run\<close>, \<^verbatim>\<open>session.skip\<close> and
  \<^verbatim>\<open>shutil.rmtree\<close> in a fixed order that depends only on the interpreter version of
  the session, the process environment and, for one session, a file read at its start.
  The embedding keeps strings as \<^typ>\<open>string\<close>, Python's unbounded integers as
  \<^typ>\<open>int\<close>, and every raise as a value of the type \<open>error\<close>.
\<close>

subsection \<open>\<^verbatim>\<open>str(int)\<close> and the format specification \<^verbatim>\<open>0>2\<close>\<close>

definition digit_char :: "nat \<Rightarrow> char" where
  "digit_char d = ''0123456789'' ! d"

function str_nat :: "nat \<Rightarrow> string" where
  "str_nat n =
     (if n < 10 then [digit_char n] else str_nat (n div 10) @ [digit_char (n mod 10)])"
  by pat_completeness auto
termination
  by (relation "measure id") auto

definition str_int :: "int \<Rightarrow> string" where
  "str_int i = (if i < 0 then CHR ''-'' # str_nat (nat (- i)) else str_nat (nat i))"

text \<open>
  \<^verbatim>\<open>format(x, "0>2")\<close>: the text of \<open>x\<close> right-aligned in a field of the given width,
  filled on the left with the fill character; a longer text is not cut.
\<close>

definition format_right :: "char \<Rightarrow> nat \<Rightarrow> string \<Rightarrow> string" where
  "format_right fill width s = replicate (width - length s) fill @ s"

subsection \<open>\<^verbatim>\<open>os.path.join\<close> and \<^verbatim>\<open>pathlib\<close> on POSIX\<close>

fun os_path_join :: "string \<Rightarrow> string list \<Rightarrow> string" where
  "os_path_join a [] = a"
| "os_path_join a (b # p) =
     os_path_join
       (if b \<noteq> [] \<and> hd b = CHR ''/'' then b
        else if a = [] \<or> last a = CHR ''/'' then a @ b
        else a @ ''/'' @ b) p"

fun split_on :: "char \<Rightarrow> string \<Rightarrow> string list" where
  "split_on d [] = [[]]"
| "split_on d (c # cs) =
     (if c = d then [] # split_on d cs
      else (case split_on d cs of [] \<Rightarrow> [[c]] | x # xs \<Rightarrow> (c # x) # xs))"

text \<open>
  An absolute POSIX path is the list of its components below the root. A segment joined
  with \<^verbatim>\<open>/\<close> is split at slashes, empty and \<^verbatim>\<open>.\<close> components are dropped, and an
  absolute segment replaces the path it is joined to.
\<close>

type_synonym path = "string list"

definition parse_parts :: "string \<Rightarrow> string list" where
  "parse_parts seg = filter (\<lambda>c. c \<noteq> [] \<and> c \<noteq> ''.'') (split_on (CHR ''/'') seg)"

definition path_div :: "path \<Rightarrow> string \<Rightarrow> path" where
  "path_div p seg =
     (if seg \<noteq> [] \<and> hd seg = CHR ''/'' then parse_parts seg else p @ parse_parts seg)"

definition path_str :: "path \<Rightarrow> string" where
  "path_str p = (if p = [] then ''/'' else concat (map (\<lambda>c. CHR ''/'' # c) p))"

section \<open>The world a session runs in\<close>

text \<open>
  The file system gives, for a path, what is found there: a regular file with its text,
  a directory, or a symbolic link with what it resolves to (nothing when it dangles).
\<close>

datatype node = File string | Dir | Link "node option"

type_synonym filesystem = "string \<rightharpoonup> node"

datatype error =
    SessionSkip string
  | CommandFailed "string list"
  | ValueError
  | FileNotFoundError string
  | IsADirectoryError string
  | NotADirectoryError string
  | OSError string

datatype step =
    Install "string list"
  | Run "string list"
  | Rmtree string bool
  | Raise error

text \<open>
  The trace lists the commands a session has issued, each with the file system it left
  behind; \<open>stdout\<close> holds the lines the noxfile itself printed.
\<close>

record world =
  fs :: filesystem
  trace :: "(step \<times> filesystem) list"
  stdout :: "string list"

text \<open>
  What lies outside the noxfile is a parameter. An external command, given its argument
  vector and the file system, succeeds or fails and leaves a file system behind. So does
  the operating system when it is asked to remove the entries of a directory tree: which
  of them it lets go (permissions, ownership, entries in use) is its own matter.
\<close>

datatype request = Command "string list" | Remove_tree string

type_synonym tools = "request \<Rightarrow> filesystem \<Rightarrow> bool \<times> filesystem"

definition path_under :: "string \<Rightarrow> string \<Rightarrow> bool" where
  "path_under d p = (p = d \<or> take (Suc (length d)) p = d @ ''/'')"

definition clear_tree :: "string \<Rightarrow> filesystem \<Rightarrow> filesystem" where
  "clear_tree d f = (\<lambda>p. if path_under d p then None else f p)"

text \<open>
  \<^verbatim>\<open>shutil.rmtree(path, ignore_errors)\<close> returns the error it raises, if any, and the
  file system it leaves. A missing path, a regular file and a symbolic link are errors that
  leave the file system as it was. Below a directory the operating system removes what it
  lets go; an entry it keeps is an error too. With \<open>ignore_errors\<close> every error is
  swallowed and the call returns normally, whatever is left.
\<close>

definition rmtree :: "tools \<Rightarrow> filesystem \<Rightarrow> string \<Rightarrow> bool \<Rightarrow> error option \<times> filesystem" where
  "rmtree t f path ignore_errors =
     (case f path of
        None \<Rightarrow> (if ignore_errors then None else Some (FileNotFoundError path), f)
      | Some (File _) \<Rightarrow> (if ignore_errors then None else Some (NotADirectoryError path), f)
      | Some (Link _) \<Rightarrow>
          (if ignore_errors then None
           else Some (OSError ''Cannot call rmtree on a symbolic link''), f)
      | Some Dir \<Rightarrow>
          (case t (Remove_tree path) f of
             (ok, f') \<Rightarrow> (if ok \<or> ignore_errors then None else Some (OSError path), f')))"

definition pip_install :: "string list \<Rightarrow> string list" where
  "pip_install args = [''python'', ''-m'', ''pip'', ''install''] @ args"

definition record_step :: "step \<Rightarrow> filesystem \<Rightarrow> world \<Rightarrow> world" where
  "record_step st f w = w\<lparr>fs := f, trace := trace w @ [(st, f)]\<rparr>"

text \<open>
  Running the calls of a session in order. \<^verbatim>\<open>session.install\<close> and
  \<^verbatim>\<open>session.run\<close> raise \<open>ValueError\<close> without arguments and \<open>CommandFailed\<close> when the
  command fails; the first raise ends the session.
\<close>

fun exec :: "tools \<Rightarrow> step list \<Rightarrow> world \<Rightarrow> (error + unit) \<times> world" where
  "exec t [] w = (Inr (), w)"
| "exec t (Raise e # rest) w = (Inl e, w)"
| "exec t (Rmtree path ignore_errors # rest) w =
     (case rmtree t (fs w) path ignore_errors of
        (Some e, f) \<Rightarrow> (Inl e, record_step (Rmtree path ignore_errors) f w)
      | (None, f) \<Rightarrow> exec t rest (record_step (Rmtree path ignore_errors) f w))"
| "exec t (Install args # rest) w =
     (if args = [] then (Inl ValueError, w)
      else (case t (Command (pip_install args)) (fs w) of
              (ok, f) \<Rightarrow>
                if ok then exec t rest (record_step (Install args) f w)
                else (Inl (CommandFailed (pip_install args)), record_step (Install args) f w)))"
| "exec t (Run args # rest) w =
     (if args = [] then (Inl ValueError, w)
      else (case t (Command args) (fs w) of
              (ok, f) \<Rightarrow>
                if ok then exec t rest (record_step (Run args) f w)
                else (Inl (CommandFailed args), record_step (Run args) f w)))"

text \<open>The outcome nox reports for a session: a skip is not a failure.\<close>

datatype status = Success | Skipped | Failed

fun status_of :: "error + unit \<Rightarrow> status" where
  "status_of (Inr _) = Success"
| "status_of (Inl (SessionSkip _)) = Skipped"
| "status_of (Inl _) = Failed"

section \<open>Constants of the noxfile\<close>

definition MYPY_VERSION :: string where
  "MYPY_VERSION = ''mypy==1.6.1''"

definition PYTYPE_VERSION :: string where
  "PYTYPE_VERSION = ''pytype==2024.9.13''"

definition BLACK_VERSION :: string where
  "BLACK_VERSION = ''black==23.7.0''"

definition BLACK_PATHS :: "string list" where
  "BLACK_PATHS =
     [''benchmark'', ''docs'', ''google'', ''samples'', ''samples/tests'', ''tests'',
      ''noxfile.py'', ''setup.py'']"

definition DEFAULT_PYTHON_VERSION :: string where
  "DEFAULT_PYTHON_VERSION = ''3.9''"

definition SYSTEM_TEST_PYTHON_VERSIONS :: "string list" where
  "SYSTEM_TEST_PYTHON_VERSIONS = [''3.9'', ''3.11'', ''3.12'', ''3.13'']"

definition UNIT_TEST_PYTHON_VERSIONS :: "string list" where
  "UNIT_TEST_PYTHON_VERSIONS = [''3.9'', ''3.11'', ''3.12'', ''3.13'']"

text \<open>
  What a session reads besides its own arguments: the directory of the noxfile, the
  process environment, and the paths the glob \<^verbatim>\<open>samples/*/requirements.txt\<close> yields.
\<close>

record env =
  CURRENT_DIRECTORY :: path
  environ :: "string \<rightharpoonup> string"
  requirements_paths :: "string list"

record session =
  python :: string
  posargs :: "string list"

definition environ_get :: "env \<Rightarrow> string \<Rightarrow> string \<Rightarrow> string" where
  "environ_get e k d = (case environ e k of None \<Rightarrow> d | Some v \<Rightarrow> v)"

definition constraints_path :: "path \<Rightarrow> string \<Rightarrow> string" where
  "constraints_path cur py =
     path_str (path_div (path_div cur ''testing'') (''constraints-'' @ py @ ''.txt''))"

definition pip_freeze :: step where
  "pip_freeze = Run [''python'', ''-m'', ''pip'', ''freeze'']"

definition uninstall_pandas_gbq :: step where
  "uninstall_pandas_gbq = Run [''python'', ''-m'', ''pip'', ''uninstall'', ''pandas-gbq'', ''-y'']"

section \<open>The timing decorator\<close>

definition human_time :: "int \<Rightarrow> string" where
  "human_time total_seconds =
     (let hours = total_seconds div 3600;
          remaining_seconds = total_seconds mod 3600;
          minutes = remaining_seconds div 60;
          seconds = remaining_seconds mod 60
      in str_int hours @ '':'' @ format_right (CHR ''0'') 2 (str_int minutes)
           @ '':'' @ format_right (CHR ''0'') 2 (str_int seconds))"

definition duration_message :: "int \<Rightarrow> string" where
  "duration_message total_seconds =
     ''Session ran in '' @ str_int total_seconds @ '' seconds ('' @ human_time total_seconds @ '')''"

text \<open>
  \<^verbatim>\<open>_calculate_duration(func)\<close> as the wrapper it returns. \<open>total_seconds\<close> is the integer
  \<^verbatim>\<open>round(end - start)\<close> of the two clock readings. A raise of \<open>func\<close> passes through
  the wrapper before anything is printed.
\<close>

definition calculate_duration ::
  "int \<Rightarrow> ('a \<Rightarrow> world \<Rightarrow> (error + 'r) \<times> world) \<Rightarrow> 'a \<Rightarrow> world \<Rightarrow> (error + 'r) \<times> world" where
  "calculate_duration total_seconds func args w =
     (case func args w of
        (Inl e, w') \<Rightarrow> (Inl e, w')
      | (Inr result, w') \<Rightarrow>
          (Inr result, w'\<lparr>stdout := stdout w' @ [duration_message total_seconds]\<rparr>))"

text \<open>The spec's two-digit field: tens and units of a number below one hundred.\<close>

definition two_digits :: "int \<Rightarrow> string" where
  "two_digits n = [digit_char (nat (n div 10)), digit_char (nat (n mod 10))]"

section \<open>The sessions\<close>

text \<open>
  Each session function is the list of calls it makes, in the order of the source; a
  conditional of the source is a conditional of the list.
\<close>

definition default_session :: "env \<Rightarrow> session \<Rightarrow> bool \<Rightarrow> step list" where
  "default_session e s install_extras =
     (let constraints = constraints_path (CURRENT_DIRECTORY e) (python s);
          install_target =
            (if install_extras \<and> python s = UNIT_TEST_PYTHON_VERSIONS ! 0
             then ''.[bqstorage,pandas,ipywidgets,geopandas,matplotlib,tqdm,opentelemetry,bigquery_v2]''
             else if install_extras then ''.[all]''
             else ''.'')
      in [Install [''pytest'', ''google-cloud-testutils'', ''pytest-cov'', ''pytest-xdist'',
                   ''freezegun'', ''-c'', constraints],
          Install [''-e'', install_target, ''-c'', constraints]]
         @ (if python s = UNIT_TEST_PYTHON_VERSIONS ! 0 then [uninstall_pandas_gbq] else [])
         @ [pip_freeze,
            Run ([''py.test'', ''-n=8'', ''--quiet'', ''-W default::PendingDeprecationWarning'',
                  ''--cov=google/cloud/bigquery'', ''--cov=tests/unit'', ''--cov-append'',
                  ''--cov-config=.coveragerc'', ''--cov-report='', ''--cov-fail-under=0'',
                  os_path_join ''tests'' [''unit'']] @ posargs s)])"

definition unit :: "env \<Rightarrow> session \<Rightarrow> step list" where
  "unit e s = default_session e s True"

definition unit_noextras :: "env \<Rightarrow> session \<Rightarrow> step list" where
  "unit_noextras e s =
     (if python s = UNIT_TEST_PYTHON_VERSIONS ! 0
      then [Install [''pyarrow==4.0.0'', ''numpy==1.20.2'']] else [])
     @ default_session e s False"

definition mypy :: "step list" where
  "mypy =
     [Install [''-e'', ''.[all]''],
      Install [MYPY_VERSION],
      Install [''types-protobuf'', ''types-python-dateutil'', ''types-requests'',
               ''types-setuptools''],
      pip_freeze,
      Run [''mypy'', ''-p'', ''google'', ''--show-traceback'']]"

definition pytype :: "step list" where
  "pytype =
     [Install [''attrs==20.3.0''],
      Install [''-e'', ''.[all]''],
      Install [PYTYPE_VERSION],
      pip_freeze,
      Run [''pytype'', ''-P'', ''.'', ''google/cloud/bigquery'']]"

definition system :: "env \<Rightarrow> session \<Rightarrow> step list" where
  "system e s =
     (let constraints = constraints_path (CURRENT_DIRECTORY e) (python s);
          extras =
            (if python s \<in> set [''3.11'', ''3.12'']
             then ''[bqstorage,ipywidgets,pandas,tqdm,opentelemetry]'' else ''[all]'')
      in (if environ_get e ''GOOGLE_APPLICATION_CREDENTIALS'' [] = []
          then [Raise (SessionSkip ''Credentials must be set via environment variable.'')]
          else [])
         @ [Install [''--pre'', ''grpcio!=1.49.0rc1'', ''-c'', constraints],
            Install [''pytest'', ''psutil'', ''pytest-xdist'', ''google-cloud-testutils'',
                     ''-c'', constraints]]
         @ (if environ_get e ''GOOGLE_API_USE_CLIENT_CERTIFICATE'' [] = ''true''
            then [Install [''google-cloud-storage'', ''pyopenssl'']]
            else [Install [''google-cloud-storage'', ''-c'', constraints]])
         @ [Install [''google-cloud-datacatalog'', ''-c'', constraints],
            Install [''google-cloud-resource-manager'', ''-c'', constraints],
            Install [''-e'', ''.'' @ extras, ''-c'', constraints]]
         @ (if python s = SYSTEM_TEST_PYTHON_VERSIONS ! 0 then [uninstall_pandas_gbq] else [])
         @ [pip_freeze,
            Run ([''py.test'', ''-n=auto'', ''--quiet'',
                  ''-W default::PendingDeprecationWarning'',
                  os_path_join ''tests'' [''system'']] @ posargs s)])"

definition mypy_samples :: "env \<Rightarrow> step list" where
  "mypy_samples e =
     [Install [''pytest'']]
     @ map (\<lambda>requirements_path. Install [''-r'', requirements_path]) (requirements_paths e)
     @ [Install [MYPY_VERSION],
        Install [''-e'', ''.[all]''],
        Install [''types-mock'', ''types-pytz'', ''types-protobuf!=4.24.0.20240106'',
                 ''types-python-dateutil'', ''types-requests'', ''types-setuptools''],
        pip_freeze,
        Run [''mypy'', ''--config-file'',
             path_str (path_div (path_div (CURRENT_DIRECTORY e) ''samples'') ''mypy.ini''),
             ''--no-incremental'', ''samples/'']]"

definition snippets :: "env \<Rightarrow> session \<Rightarrow> step list" where
  "snippets e s =
     (let constraints = constraints_path (CURRENT_DIRECTORY e) (python s);
          extras =
            (if python s \<in> set [''3.11'', ''3.12'']
             then ''[bqstorage,pandas,ipywidgets,geopandas,tqdm,opentelemetry,bigquery_v2]''
             else ''[all]'')
      in [Install [''pytest'', ''pytest-xdist'', ''google-cloud-testutils'', ''-c'', constraints],
          Install [''google-cloud-storage'', ''-c'', constraints],
          Install [''grpcio'', ''-c'', constraints],
          Install [''-e'', ''.'' @ extras, ''-c'', constraints],
          pip_freeze,
          Run ([''py.test'', ''-n=auto'', os_path_join ''docs'' [''snippets.py'']] @ posargs s),
          Run ([''py.test'', ''-n=auto'', ''samples'', ''-W default::PendingDeprecationWarning'',
                ''--ignore=samples/desktopapp'', ''--ignore=samples/magics'',
                ''--ignore=samples/geography'', ''--ignore=samples/notebooks'',
                ''--ignore=samples/snippets''] @ posargs s)])"

definition cover :: "step list" where
  "cover =
     [Install [''coverage'', ''pytest-cov''],
      pip_freeze,
      Run [''coverage'', ''report'', ''--show-missing'', ''--fail-under=100''],
      Run [''coverage'', ''erase'']]"

subsection \<open>The dependency names of a constraints file\<close>

text \<open>
  \<^verbatim>\<open>re.finditer(r"^\s*(\S+)(?===\S+)", text, flags=re.MULTILINE)\<close>, group 1 of every
  match. A match starts at the start of a line, skips white space (line ends included)
  and takes the longest non-empty part of the following run of other characters that is
  followed, within the run, by \<^verbatim>\<open>==\<close> and one more character. A character of the
  text is a code point below 256; \<^verbatim>\<open>\s\<close> matches the white space among them, which
  is that of ASCII with the four separators, the next-line character and the no-break
  space.
\<close>

definition is_space :: "char \<Rightarrow> bool" where
  "is_space c = ((of_char c :: nat) \<in> set [9, 10, 11, 12, 13, 28, 29, 30, 31, 32, 133, 160])"

fun group1 :: "string \<Rightarrow> string option" where
  "group1 [] = None"
| "group1 (c # cs) =
     (case group1 cs of
        Some g \<Rightarrow> Some (c # g)
      | None \<Rightarrow>
          (case cs of
             a # b # d # _ \<Rightarrow> if a = CHR ''='' \<and> b = CHR ''='' then Some [c] else None
           | _ \<Rightarrow> None))"

definition match_at :: "string \<Rightarrow> (string \<times> nat) option" where
  "match_at text =
     (case group1 (takeWhile (\<lambda>c. \<not> is_space c) (dropWhile is_space text)) of
        None \<Rightarrow> None
      | Some g \<Rightarrow> Some (g, length (takeWhile is_space text) + length g))"

text \<open>
  The scan: \<open>bol\<close> says that the text starts a line, \<open>skip\<close> counts the characters still
  inside the previous match.
\<close>

fun finditer :: "bool \<Rightarrow> nat \<Rightarrow> string \<Rightarrow> string list" where
  "finditer bol skip [] = []"
| "finditer bol skip (c # cs) =
     (if skip = 0 \<and> bol then
        (case match_at (c # cs) of
           Some (g, n) \<Rightarrow> g # finditer (c = CHR 0x0A) (n - 1) cs
         | None \<Rightarrow> finditer (c = CHR 0x0A) 0 cs)
      else finditer (c = CHR 0x0A) (skip - 1) cs)"

definition constraint_deps :: "string \<Rightarrow> string list" where
  "constraint_deps constraints_text = finditer True 0 constraints_text"

text \<open>
  \<^verbatim>\<open>open(path).read()\<close> on what is found at the path; a symbolic link is followed.
\<close>

fun read_text :: "string \<Rightarrow> node option \<Rightarrow> error + string" where
  "read_text path None = Inl (FileNotFoundError path)"
| "read_text path (Some (File text)) = Inr text"
| "read_text path (Some Dir) = Inl (IsADirectoryError path)"
| "read_text path (Some (Link n)) = read_text path n"

definition prerelease_deps :: "env \<Rightarrow> session \<Rightarrow> filesystem \<Rightarrow> step list" where
  "prerelease_deps e s f =
     (let constraints = constraints_path (CURRENT_DIRECTORY e) (UNIT_TEST_PYTHON_VERSIONS ! 0)
      in case read_text constraints (f constraints) of
           Inl err \<Rightarrow> [Raise err]
         | Inr constraints_text \<Rightarrow>
             [Install (constraint_deps constraints_text),
              Install [''--pre'', ''--upgrade'', ''freezegun'', ''google-cloud-datacatalog'',
                       ''google-cloud-resource-manager'', ''google-cloud-storage'',
                       ''google-cloud-testutils'', ''psutil'', ''pytest'', ''pytest-xdist'',
                       ''pytest-cov''],
              Install [''--extra-index-url'',
                       ''https://pypi.anaconda.org/scientific-python-nightly-wheels/simple'',
                       ''--prefer-binary'', ''--pre'', ''--upgrade'', ''pyarrow''],
              Install [''--pre'', ''--upgrade'', ''IPython'', ''ipykernel'', ''ipywidgets'',
                       ''tqdm'', ''git+https://github.com/pypa/packaging.git'', ''pandas''],
              Install [''--pre'', ''--upgrade'', ''--no-deps'', ''google-api-core'',
                       ''google-cloud-bigquery-storage'', ''google-cloud-core'',
                       ''google-resumable-media'', ''db-dtypes'', ''grpcio'', ''protobuf''],
              Install [''-e'', ''.'', ''--no-deps''],
              pip_freeze,
              Run [''py.test'', ''-n=auto'', ''tests/unit'',
                   ''-W default::PendingDeprecationWarning''],
              Run [''py.test'', ''-n=auto'', ''tests/system'',
                   ''-W default::PendingDeprecationWarning''],
              Run [''py.test'', ''-n=auto'', ''samples/tests'',
                   ''-W default::PendingDeprecationWarning'']])"

definition lint :: "step list" where
  "lint =
     [Install [''flake8'', BLACK_VERSION],
      Install [''-e'', ''.''],
      pip_freeze,
      Run [''flake8'', os_path_join ''google'' [''cloud'', ''bigquery'']],
      Run [''flake8'', ''tests''],
      Run [''flake8'', os_path_join ''docs'' [''samples'']],
      Run [''flake8'', os_path_join ''docs'' [''snippets.py'']],
      Run [''flake8'', ''benchmark''],
      Run ([''black'', ''--check''] @ BLACK_PATHS)]"

definition lint_setup_py :: "step list" where
  "lint_setup_py =
     [Install [''docutils'', ''Pygments''],
      pip_freeze,
      Run [''python'', ''setup.py'', ''check'', ''--restructuredtext'', ''--strict'']]"

definition blacken :: "step list" where
  "blacken =
     [Install [BLACK_VERSION],
      pip_freeze,
      Run ([''black''] @ BLACK_PATHS)]"

definition docs :: "step list" where
  "docs =
     [Install [''sphinxcontrib-applehelp==1.0.4'', ''sphinxcontrib-devhelp==1.0.2'',
               ''sphinxcontrib-htmlhelp==2.0.1'', ''sphinxcontrib-qthelp==1.0.3'',
               ''sphinxcontrib-serializinghtml==1.1.5'', ''sphinx==4.5.0'', ''alabaster'',
               ''recommonmark''],
      Install [''google-cloud-storage''],
      Install [''-e'', ''.[all]''],
      Rmtree (os_path_join ''docs'' [''_build'']) True,
      pip_freeze,
      Run [''sphinx-build'', ''-W'', ''-T'', ''-N'', ''-b'', ''html'', ''-d'',
           os_path_join ''docs'' [''_build'', ''doctrees'', []],
           os_path_join ''docs'' [[]],
           os_path_join ''docs'' [''_build'', ''html'', []]]]"

definition docfx :: "step list" where
  "docfx =
     [Install [''-e'', ''.''],
      Install [''sphinxcontrib-applehelp==1.0.4'', ''sphinxcontrib-devhelp==1.0.2'',
               ''sphinxcontrib-htmlhelp==2.0.1'', ''sphinxcontrib-qthelp==1.0.3'',
               ''sphinxcontrib-serializinghtml==1.1.5'', ''gcp-sphinx-docfx-yaml'',
               ''alabaster'', ''recommonmark''],
      Rmtree (os_path_join ''docs'' [''_build'']) True,
      pip_freeze,
      Run [''sphinx-build'', ''-T'', ''-N'', ''-D'',
           ''extensions=sphinx.ext.autodoc,'' @ ''sphinx.ext.autosummary,''
             @ ''docfx_yaml.extension,'' @ ''sphinx.ext.intersphinx,''
             @ ''sphinx.ext.coverage,'' @ ''sphinx.ext.napoleon,'' @ ''sphinx.ext.todo,''
             @ ''sphinx.ext.viewcode,'' @ ''recommonmark'',
           ''-b'', ''html'', ''-d'',
           os_path_join ''docs'' [''_build'', ''doctrees'', []],
           os_path_join ''docs'' [[]],
           os_path_join ''docs'' [''_build'', ''html'', []]]]"

section \<open>The registered sessions\<close>

text \<open>
  Every session function is registered with \<^verbatim>\<open>@nox.session(python=...)\<close> under its own
  name, wrapped in the timing decorator. An entry gives the name, the interpreter versions
  and the function; the file system is the one the session starts in.
\<close>

type_synonym session_fn = "env \<Rightarrow> session \<Rightarrow> filesystem \<Rightarrow> step list"

definition run_session ::
  "tools \<Rightarrow> int \<Rightarrow> session_fn \<Rightarrow> env \<Rightarrow> session \<Rightarrow> world \<Rightarrow> (error + unit) \<times> world" where
  "run_session t total_seconds fn e s w =
     calculate_duration total_seconds (\<lambda>s w. exec t (fn e s (fs w)) w) s w"

definition registered_sessions :: "(string \<times> string list \<times> session_fn) list" where
  "registered_sessions =
     [(''unit'', UNIT_TEST_PYTHON_VERSIONS, \<lambda>e s f. unit e s),
      (''unit_noextras'',
         [UNIT_TEST_PYTHON_VERSIONS ! 0, last UNIT_TEST_PYTHON_VERSIONS],
         \<lambda>e s f. unit_noextras e s),
      (''mypy'', [DEFAULT_PYTHON_VERSION], \<lambda>e s f. mypy),
      (''pytype'', [DEFAULT_PYTHON_VERSION], \<lambda>e s f. pytype),
      (''system'', SYSTEM_TEST_PYTHON_VERSIONS, \<lambda>e s f. system e s),
      (''mypy_samples'', [DEFAULT_PYTHON_VERSION], \<lambda>e s f. mypy_samples e),
      (''snippets'', SYSTEM_TEST_PYTHON_VERSIONS, \<lambda>e s f. snippets e s),
      (''cover'', [DEFAULT_PYTHON_VERSION], \<lambda>e s f. cover),
      (''prerelease_deps'', SYSTEM_TEST_PYTHON_VERSIONS, prerelease_deps),
      (''lint'', [DEFAULT_PYTHON_VERSION], \<lambda>e s f. lint),
      (''lint_setup_py'', [DEFAULT_PYTHON_VERSION], \<lambda>e s f. lint_setup_py),
      (''blacken'', [DEFAULT_PYTHON_VERSION], \<lambda>e s f. blacken),
      (''docs'', [''3.10''], \<lambda>e s f. docs),
      (''docfx'', [''3.10''], \<lambda>e s f. docfx)]"

definition nox_options_sessions :: "string list" where
  "nox_options_sessions =
     [''unit_noextras'', ''unit'', ''system'', ''snippets'', ''cover'', ''lint'',
      ''lint_setup_py'', ''blacken'', ''mypy'', ''mypy_samples'', ''pytype'', ''docs'']"

datatype invocation = NoSuchSession string | Executed "error + unit"

text \<open>
  Modelled from the spec: the dispatcher of the task runner is the nox library, which is
  not among the sources. The spec's contract for it: given a task name, locate and execute
  the corresponding procedure; an unknown name fails with a "no such session" error and
  a non-zero exit, never a silent no-op. The exit is zero when every step succeeded; a
  skipped session is not a failure.
\<close>

definition find_session :: "string \<Rightarrow> session_fn option" where
  "find_session name = map_of (map (\<lambda>(n, pythons, fn). (n, fn)) registered_sessions) name"

definition invoke ::
  "tools \<Rightarrow> int \<Rightarrow> env \<Rightarrow> string \<Rightarrow> session \<Rightarrow> world \<Rightarrow> invocation \<times> world" where
  "invoke t total_seconds e name s w =
     (case find_session name of
        None \<Rightarrow> (NoSuchSession name, w)
      | Some fn \<Rightarrow>
          (case run_session t total_seconds fn e s w of (r, w') \<Rightarrow> (Executed r, w')))"

fun exit_zero :: "invocation \<Rightarrow> bool" where
  "exit_zero (NoSuchSession name) = False"
| "exit_zero (Executed r) = (status_of r \<noteq> Failed)"

section \<open>Reading a session's calls\<close>

text \<open>The argument lists with which a list of calls runs the command \<open>c\<close>.\<close>

fun command_args :: "string \<Rightarrow> step list \<Rightarrow> string list list" where
  "command_args c [] = []"
| "command_args c (Run (x # args) # rest) =
     (if x = c then args # command_args c rest else command_args c rest)"
| "command_args c (st # rest) = command_args c rest"

definition ends_with :: "'a list \<Rightarrow> 'a list \<Rightarrow> bool" where
  "ends_with suffix xs = (drop (length xs - length suffix) xs = suffix)"

text \<open>The values that follow a \<^verbatim>\<open>-c\<close> among the arguments of the installs.\<close>

fun after_c :: "string list \<Rightarrow> string list" where
  "after_c (a # b # rest) = (if a = ''-c'' then b # after_c rest else after_c (b # rest))"
| "after_c rest = []"

fun constraint_files :: "step list \<Rightarrow> string list" where
  "constraint_files [] = []"
| "constraint_files (Install args # rest) = after_c args @ constraint_files rest"
| "constraint_files (st # rest) = constraint_files rest"

text \<open>
  The extras a requirement such as \<^verbatim>\<open>.[pandas,tqdm]\<close> names: the text between the
  brackets, split at commas.
\<close>

definition requested_extras :: "string \<Rightarrow> string list" where
  "requested_extras target =
     (case dropWhile (\<lambda>c. c \<noteq> CHR ''['') target of
        [] \<Rightarrow> []
      | _ # rest \<Rightarrow> split_on (CHR '','') (takeWhile (\<lambda>c. c \<noteq> CHR '']'') rest))"

text \<open>
  Modelled from the spec: the package metadata that defines the extra \<^verbatim>\<open>all\<close> is not
  among the sources. The spec says that the lowest interpreter version omits one optional
  extra of it, and the noxfile's comment names that extra, \<^verbatim>\<open>ipython\<close>; so \<^verbatim>\<open>all\<close> is
  the extras the lowest version installs, and \<^verbatim>\<open>ipython\<close>.
\<close>

definition all_extra :: "string list" where
  "all_extra =
     [''bqstorage'', ''pandas'', ''ipywidgets'', ''geopandas'', ''ipython'', ''matplotlib'',
      ''tqdm'', ''opentelemetry'', ''bigquery_v2'']"

definition resolve_extras :: "string list \<Rightarrow> string list" where
  "resolve_extras xs = concat (map (\<lambda>x. if x = ''all'' then all_extra else [x]) xs)"

fun installed_extras :: "step list \<Rightarrow> string list" where
  "installed_extras [] = []"
| "installed_extras (Install (a # target # args) # rest) =
     (if a = ''-e'' then resolve_extras (requested_extras target) @ installed_extras rest
      else installed_extras rest)"
| "installed_extras (st # rest) = installed_extras rest"


text \<open>
  What a run of a list of calls adds to the trace, and the calls alone.
\<close>

definition new_trace :: "tools \<Rightarrow> step list \<Rightarrow> world \<Rightarrow> (step \<times> filesystem) list" where
  "new_trace t p w = drop (length (trace w)) (trace (snd (exec t p w)))"

definition issued :: "tools \<Rightarrow> step list \<Rightarrow> world \<Rightarrow> step list" where
  "issued t p w = map fst (new_trace t p w)"

subsection \<open>A concrete run\<close>

text \<open>
  A checkout in \<^verbatim>\<open>/repo\<close> with a constraints file of two pins and a comment, no
  credentials in the environment, every external command succeeding and leaving the file
  system alone, and a session under the lowest interpreter version with the positional
  arguments \<^verbatim>\<open>-k foo\<close>.
\<close>

definition example_env :: env where
  "example_env =
     \<lparr>CURRENT_DIRECTORY = [''repo''], environ = Map.empty, requirements_paths = []\<rparr>"

definition example_session :: session where
  "example_session = \<lparr>python = ''3.9'', posargs = [''-k'', ''foo'']\<rparr>"

definition example_fs :: filesystem where
  "example_fs =
     [''/repo/testing/constraints-3.9.txt'' \<mapsto>
        File ''# pins\<newline>pandas==1.1.0\<newline>  pyarrow==3.0.0'',
      ''docs/_build'' \<mapsto> Dir,
      ''docs/_build/html'' \<mapsto> Dir]"

definition example_world :: world where
  "example_world = \<lparr>fs = example_fs, trace = [], stdout = []\<rparr>"

fun all_succeed :: "request \<Rightarrow> filesystem \<Rightarrow> bool \<times> filesystem" where
  "all_succeed (Command args) f = (True, f)"
| "all_succeed (Remove_tree path) f = (True, clear_tree path f)"



subsection \<open>What a rebuild may rely on\<close>





section \<open>The timing decorator is observational\<close>

lemma str_nat_small: "n < 10 \<Longrightarrow> str_nat n = [digit_char n]"
  by simp

lemma str_nat_two:
  assumes "10 \<le> n" "n < 100"
  shows "str_nat n = [digit_char (n div 10), digit_char (n mod 10)]"
proof -
  from assms have "n div 10 < 10" by simp
  then have "str_nat (n div 10) = [digit_char (n div 10)]" by (rule str_nat_small)
  moreover have "str_nat n = str_nat (n div 10) @ [digit_char (n mod 10)]"
    using assms by (subst str_nat.simps) simp
  ultimately show ?thesis by simp
qed

lemma digit_char_0: "digit_char 0 = CHR ''0''"
  by (simp add: digit_char_def)

lemma format_two_digits:
  assumes "0 \<le> n" "n < 100"
  shows "format_right (CHR ''0'') 2 (str_int n) = two_digits n"
proof (cases "n < 10")
  case True
  then have "nat n < 10" using assms by simp
  then have "str_nat (nat n) = [digit_char (nat n)]" by (rule str_nat_small)
  moreover have "n div 10 = 0" "n mod 10 = n" using True assms by simp_all
  ultimately show ?thesis
    using assms by (simp add: format_right_def str_int_def two_digits_def digit_char_0)
next
  case False
  then have "10 \<le> nat n" "nat n < 100" using assms by simp_all
  then have "str_nat (nat n) = [digit_char (nat n div 10), digit_char (nat n mod 10)]"
    by (rule str_nat_two)
  moreover have "nat n div 10 = nat (n div 10)" "nat n mod 10 = nat (n mod 10)"
    using assms by (simp_all add: nat_div_distrib nat_mod_distrib)
  ultimately show ?thesis
    using assms by (simp add: format_right_def str_int_def two_digits_def)
qed

lemma minutes_range: "0 \<le> (d mod 3600) div 60 \<and> (d mod 3600) div 60 \<le> (59::int)"
proof -
  have r: "0 \<le> d mod 3600" "d mod 3600 < 3600" by simp_all
  then have "d mod 3600 \<le> 3599" by simp
  then have "(d mod 3600) div 60 \<le> 3599 div 60" by (rule zdiv_mono1) simp
  moreover have "0 \<le> (d mod 3600) div 60" using r by (simp add: pos_imp_zdiv_nonneg_iff)
  ultimately show ?thesis by simp
qed

lemma seconds_range: "0 \<le> d mod 60 \<and> d mod 60 \<le> (59::int)"
  using pos_mod_bound [of 60 d] by simp

lemma human_time_fields:
  "human_time d =
     str_int (d div 3600) @ '':'' @ two_digits ((d mod 3600) div 60) @ '':''
       @ two_digits (d mod 60)"
proof -
  have m: "0 \<le> (d mod 3600) div 60" "(d mod 3600) div 60 < 100"
    using minutes_range [of d] by simp_all
  have "(d mod 3600) mod 60 = d mod 60"
    by (simp add: mod_mod_cancel)
  moreover have "0 \<le> d mod 60" "d mod 60 < 100"
    using seconds_range [of d] by simp_all
  ultimately show ?thesis
    using m by (simp add: human_time_def Let_def format_two_digits)
qed

text \<open>
  C7. The wrapper returns what the wrapped function returns, a raise included, leaves the
  file system and the commands of the function as they are, and prints one line after a
  normal return. For a duration \<open>d \<ge> 0\<close> the line gives \<open>d\<close> and \<open>H:MM:SS\<close> with
  \<open>H = d div 3600\<close>, \<open>MM = (d mod 3600) div 60\<close> and \<open>SS = d mod 60\<close>, both in two digits
  and between 0 and 59.
\<close>

theorem calculate_duration_observational:
  "fst (calculate_duration d func args w) = fst (func args w)
   \<and> fs (snd (calculate_duration d func args w)) = fs (snd (func args w))
   \<and> trace (snd (calculate_duration d func args w)) = trace (snd (func args w))
   \<and> stdout (snd (calculate_duration d func args w)) =
       (if isl (fst (func args w)) then stdout (snd (func args w))
        else stdout (snd (func args w)) @ [duration_message d])
   \<and> (0 \<le> d \<longrightarrow>
        duration_message d =
          ''Session ran in '' @ str_int d @ '' seconds ('' @ str_int (d div 3600) @ '':''
            @ two_digits ((d mod 3600) div 60) @ '':'' @ two_digits (d mod 60) @ '')''
        \<and> 0 \<le> d div 3600
        \<and> 0 \<le> (d mod 3600) div 60 \<and> (d mod 3600) div 60 \<le> 59
        \<and> 0 \<le> d mod 60 \<and> d mod 60 \<le> 59
        \<and> d = 3600 * (d div 3600) + 60 * ((d mod 3600) div 60) + d mod 60)"
proof -
  obtain r w' where f: "func args w = (r, w')" by (cases "func args w")
  have a: "fst (calculate_duration d func args w) = fst (func args w)"
    by (cases r) (simp_all add: calculate_duration_def f)
  have b: "fs (snd (calculate_duration d func args w)) = fs (snd (func args w))"
    by (cases r) (simp_all add: calculate_duration_def f)
  have c: "trace (snd (calculate_duration d func args w)) = trace (snd (func args w))"
    by (cases r) (simp_all add: calculate_duration_def f)
  have e: "stdout (snd (calculate_duration d func args w)) =
       (if isl (fst (func args w)) then stdout (snd (func args w))
        else stdout (snd (func args w)) @ [duration_message d])"
    by (cases r) (simp_all add: calculate_duration_def f)
  have g: "duration_message d =
          ''Session ran in '' @ str_int d @ '' seconds ('' @ str_int (d div 3600) @ '':''
            @ two_digits ((d mod 3600) div 60) @ '':'' @ two_digits (d mod 60) @ '')''"
    by (simp add: duration_message_def human_time_fields)
  have h: "0 \<le> d \<Longrightarrow> 0 \<le> d div 3600" by simp
  note i = minutes_range [of d]
  note j = seconds_range [of d]
  have k1: "d = 3600 * (d div 3600) + d mod 3600" by simp
  have k2: "d mod 3600 = 60 * ((d mod 3600) div 60) + (d mod 3600) mod 60" by simp
  have k3: "(d mod 3600) mod 60 = d mod 60" by (simp add: mod_mod_cancel)
  have k: "d = 3600 * (d div 3600) + 60 * ((d mod 3600) div 60) + d mod 60"
    using k1 k2 k3 by linarith
  show ?thesis
    by (intro conjI impI)
      (rule a b c e g h i [THEN conjunct1] i [THEN conjunct2] j [THEN conjunct1]
         j [THEN conjunct2] k | assumption)+
qed

theorem calculate_duration_observational_witness:
  "fst (calculate_duration 3725 (\<lambda>s. exec (\<lambda>a f. (True, f)) lint) ()
          \<lparr>fs = Map.empty, trace = [], stdout = []\<rparr>) = Inr ()
   \<and> stdout (snd (calculate_duration 3725 (\<lambda>s. exec (\<lambda>a f. (True, f)) lint) ()
          \<lparr>fs = Map.empty, trace = [], stdout = []\<rparr>))
      = [''Session ran in 3725 seconds (1:02:05)'']"
proof -
  have ex1: "fst (exec (\<lambda>a f. (True, f)) lint \<lparr>fs = Map.empty, trace = [], stdout = []\<rparr>)
      = Inr ()"
    by (simp add: lint_def pip_freeze_def BLACK_VERSION_def BLACK_PATHS_def record_step_def)
  have ex2: "stdout (snd (exec (\<lambda>a f. (True, f)) lint
      \<lparr>fs = Map.empty, trace = [], stdout = []\<rparr>)) = []"
    by (simp add: lint_def pip_freeze_def BLACK_VERSION_def BLACK_PATHS_def record_step_def)
  have ex3: "str_int 3725 = ''3725'' \<and> str_int (3725 div 3600) = ''1''
      \<and> two_digits ((3725 mod 3600) div 60) = ''02'' \<and> two_digits (3725 mod 60) = ''05''"
    by (simp add: str_int_def two_digits_def digit_char_def)
  show ?thesis
    using calculate_duration_observational [of 3725 "\<lambda>s. exec (\<lambda>a f. (True, f)) lint" "()"
        "\<lparr>fs = Map.empty, trace = [], stdout = []\<rparr>"] ex1 ex2 ex3
    by simp
qed

section \<open>Runs of a list of calls\<close>

lemma trace_record_step: "trace (record_step st f w) = trace w @ [(st, f)]"
  by (simp add: record_step_def)

lemma fs_record_step: "fs (record_step st f w) = f"
  by (simp add: record_step_def)

lemma new_trace_Nil: "new_trace t [] w = []"
  by (simp add: new_trace_def)

lemma new_trace_Raise: "new_trace t (Raise e # p) w = []"
  by (simp add: new_trace_def)

lemmas new_trace_simps = new_trace_Nil new_trace_Raise fs_record_step

lemma stdout_record_step: "stdout (record_step st f w) = stdout w"
  by (simp add: record_step_def)

lemma exec_trace_extends: "\<exists>tr. trace (snd (exec t p w)) = trace w @ tr"
proof (induction p arbitrary: w)
  case Nil
  show ?case by simp
next
  case (Cons a p)
  show ?case
  proof (cases a)
    case (Install args)
    obtain ok f where tf: "t (Command (pip_install args)) (fs w) = (ok, f)" by (cases "t (Command (pip_install args)) (fs w)")
    from Cons.IH [of "record_step (Install args) f w"] obtain tr where
      "trace (snd (exec t p (record_step (Install args) f w))) = trace w @ (Install args, f) # tr"
      by (auto simp: trace_record_step)
    then show ?thesis using Install tf by (simp add: trace_record_step)
  next
    case (Run args)
    obtain ok f where tf: "t (Command args) (fs w) = (ok, f)"
      by (cases "t (Command args) (fs w)")
    from Cons.IH [of "record_step (Run args) f w"] obtain tr where
      "trace (snd (exec t p (record_step (Run args) f w))) = trace w @ (Run args, f) # tr"
      by (auto simp: trace_record_step)
    then show ?thesis using Run tf by (simp add: trace_record_step)
  next
    case (Rmtree path ig)
    obtain err f where r: "rmtree t (fs w) path ig = (err, f)"
      by (cases "rmtree t (fs w) path ig")
    from Cons.IH [of "record_step (Rmtree path ig) f w"] obtain tr where
      "trace (snd (exec t p (record_step (Rmtree path ig) f w))) = trace w @ (Rmtree path ig, f) # tr"
      by (auto simp: trace_record_step)
    then show ?thesis using Rmtree r by (cases err) (simp_all add: trace_record_step)
  next
    case (Raise e)
    then show ?thesis by simp
  qed
qed

lemma issued_Nil: "issued t [] w = []"
  by (simp add: issued_def new_trace_def)

lemma issued_Raise: "issued t (Raise e # p) w = []"
  by (simp add: issued_def new_trace_def)

lemma new_trace_step:
  assumes "trace w' = trace w @ [x]"
  shows "drop (length (trace w)) (trace (snd (exec t p w'))) = x # new_trace t p w'"
proof -
  obtain tr where "trace (snd (exec t p w')) = trace w' @ tr"
    using exec_trace_extends by blast
  then show ?thesis using assms by (simp add: new_trace_def)
qed

lemma new_trace_Install:
  "new_trace t (Install args # p) w =
     (if args = [] then []
      else (case t (Command (pip_install args)) (fs w) of
              (ok, f) \<Rightarrow> (Install args, f) #
                 (if ok then new_trace t p (record_step (Install args) f w) else [])))"
proof (cases "args = []")
  case True
  then show ?thesis by (simp add: new_trace_def)
next
  case False
  obtain ok f where tf: "t (Command (pip_install args)) (fs w) = (ok, f)" by (cases "t (Command (pip_install args)) (fs w)")
  show ?thesis
  proof (cases ok)
    case True
    have "new_trace t (Install args # p) w
        = drop (length (trace w)) (trace (snd (exec t p (record_step (Install args) f w))))"
      using False tf True by (simp add: new_trace_def)
    also have "\<dots> = (Install args, f) # new_trace t p (record_step (Install args) f w)"
      by (rule new_trace_step) (simp add: trace_record_step)
    finally show ?thesis using False tf True by simp
  next
    case False
    then show ?thesis using \<open>args \<noteq> []\<close> tf by (simp add: new_trace_def trace_record_step)
  qed
qed

lemma new_trace_Run:
  "new_trace t (Run args # p) w =
     (if args = [] then []
      else (case t (Command args) (fs w) of
              (ok, f) \<Rightarrow> (Run args, f) #
                 (if ok then new_trace t p (record_step (Run args) f w) else [])))"
proof (cases "args = []")
  case True
  then show ?thesis by (simp add: new_trace_def)
next
  case False
  obtain ok f where tf: "t (Command args) (fs w) = (ok, f)"
      by (cases "t (Command args) (fs w)")
  show ?thesis
  proof (cases ok)
    case True
    have "new_trace t (Run args # p) w
        = drop (length (trace w)) (trace (snd (exec t p (record_step (Run args) f w))))"
      using False tf True by (simp add: new_trace_def)
    also have "\<dots> = (Run args, f) # new_trace t p (record_step (Run args) f w)"
      by (rule new_trace_step) (simp add: trace_record_step)
    finally show ?thesis using False tf True by simp
  next
    case False
    then show ?thesis using \<open>args \<noteq> []\<close> tf by (simp add: new_trace_def trace_record_step)
  qed
qed

lemma new_trace_Rmtree:
  "new_trace t (Rmtree path ig # p) w =
     (case rmtree t (fs w) path ig of
        (Some e, f) \<Rightarrow> [(Rmtree path ig, f)]
      | (None, f) \<Rightarrow> (Rmtree path ig, f) # new_trace t p (record_step (Rmtree path ig) f w))"
proof -
  obtain err f where r: "rmtree t (fs w) path ig = (err, f)"
    by (cases "rmtree t (fs w) path ig")
  show ?thesis
  proof (cases err)
    case None
    have "new_trace t (Rmtree path ig # p) w
        = drop (length (trace w)) (trace (snd (exec t p (record_step (Rmtree path ig) f w))))"
      using r None by (simp add: new_trace_def)
    also have "\<dots> = (Rmtree path ig, f) # new_trace t p (record_step (Rmtree path ig) f w)"
      by (rule new_trace_step) (simp add: trace_record_step)
    finally show ?thesis using r None by simp
  next
    case (Some e)
    then show ?thesis using r by (simp add: new_trace_def trace_record_step)
  qed
qed

lemma issued_prefix: "\<exists>k. issued t p w = take k p"
proof (induction p arbitrary: w)
  case Nil
  show ?case by (simp add: issued_Nil)
next
  case (Cons a p)
  show ?case
  proof (cases a)
    case (Install args)
    obtain ok f where tf: "t (Command (pip_install args)) (fs w) = (ok, f)" by (cases "t (Command (pip_install args)) (fs w)")
    from Cons.IH [of "record_step (Install args) f w"] obtain k where
      k: "issued t p (record_step (Install args) f w) = take k p" by blast
    have "issued t (a # p) w = take (if args = [] then 0 else if ok then Suc k else 1) (a # p)"
      using Install tf k by (simp add: issued_def new_trace_Install)
    then show ?thesis by blast
  next
    case (Run args)
    obtain ok f where tf: "t (Command args) (fs w) = (ok, f)"
      by (cases "t (Command args) (fs w)")
    from Cons.IH [of "record_step (Run args) f w"] obtain k where
      k: "issued t p (record_step (Run args) f w) = take k p" by blast
    have "issued t (a # p) w = take (if args = [] then 0 else if ok then Suc k else 1) (a # p)"
      using Run tf k by (simp add: issued_def new_trace_Run)
    then show ?thesis by blast
  next
    case (Rmtree path ig)
    obtain err f where r: "rmtree t (fs w) path ig = (err, f)"
      by (cases "rmtree t (fs w) path ig")
    from Cons.IH [of "record_step (Rmtree path ig) f w"] obtain k where
      k: "issued t p (record_step (Rmtree path ig) f w) = take k p" by blast
    have "issued t (a # p) w = take (if err = None then Suc k else 1) (a # p)"
      using Rmtree r k by (cases err) (simp_all add: issued_def new_trace_Rmtree)
    then show ?thesis by blast
  next
    case (Raise e)
    then have "issued t (a # p) w = take 0 (a # p)" by (simp add: issued_Raise)
    then show ?thesis by blast
  qed
qed

lemma command_args_take:
  "list_all P (command_args c p) \<Longrightarrow> list_all P (command_args c (take k p))"
  by (induction c p arbitrary: k rule: command_args.induct)
    (auto simp: take_Cons split: nat.splits if_splits)

lemma issued_command_args:
  "list_all P (command_args c p) \<Longrightarrow> list_all P (command_args c (issued t p w))"
  using issued_prefix [of t p w] command_args_take [of P c p] by auto

section \<open>The formatter paths\<close>

text \<open>
  C8. The formatter path list is a fixed, non-empty list that holds the library source
  directory, the tests, docs and samples directories and the noxfile itself; the run of
  \<^verbatim>\<open>black\<close> in the lint session and the one in the blacken session are over exactly
  this list.
\<close>

theorem formatter_paths:
  "BLACK_PATHS =
     [''benchmark'', ''docs'', ''google'', ''samples'', ''samples/tests'', ''tests'',
      ''noxfile.py'', ''setup.py'']
   \<and> BLACK_PATHS \<noteq> []
   \<and> ''google'' \<in> set BLACK_PATHS \<and> ''tests'' \<in> set BLACK_PATHS
   \<and> ''docs'' \<in> set BLACK_PATHS \<and> ''samples'' \<in> set BLACK_PATHS
   \<and> ''noxfile.py'' \<in> set BLACK_PATHS
   \<and> command_args ''black'' lint = [''--check'' # BLACK_PATHS]
   \<and> command_args ''black'' blacken = [BLACK_PATHS]"
  by (simp add: BLACK_PATHS_def lint_def blacken_def pip_freeze_def)

theorem formatter_paths_witness:
  "command_args ''black'' (issued all_succeed blacken example_world) = [BLACK_PATHS]
   \<and> command_args ''black'' (issued all_succeed lint example_world) = [''--check'' # BLACK_PATHS]"
proof -
  have a: "issued all_succeed blacken example_world = blacken"
    by (simp add: issued_def new_trace_Install new_trace_Run new_trace_simps blacken_def
        pip_freeze_def BLACK_PATHS_def)
  have b: "issued all_succeed lint example_world = lint"
    by (simp add: issued_def new_trace_Install new_trace_Run new_trace_simps lint_def
        pip_freeze_def BLACK_PATHS_def)
  show ?thesis using formatter_paths a b by simp
qed

section \<open>The documentation generator and warnings\<close>

text \<open>
  C6, as stated, fails: in a run of the docfx session in which every command succeeds, the
  documentation generator is invoked once, without \<^verbatim>\<open>-W\<close>.
\<close>

theorem docfx_without_warnings_as_errors:
  "command_args ''sphinx-build'' (issued all_succeed docfx example_world) =
     [[''-T'', ''-N'', ''-D'',
       ''extensions=sphinx.ext.autodoc,sphinx.ext.autosummary,docfx_yaml.extension,sphinx.ext.intersphinx,sphinx.ext.coverage,sphinx.ext.napoleon,sphinx.ext.todo,sphinx.ext.viewcode,recommonmark'',
       ''-b'', ''html'', ''-d'', ''docs/_build/doctrees/'', ''docs/'', ''docs/_build/html/'']]
   \<and> \<not> list_all (\<lambda>args. ''-W'' \<in> set args)
         (command_args ''sphinx-build'' (issued all_succeed docfx example_world))"
  by (simp add: issued_def new_trace_Install new_trace_Run new_trace_Rmtree new_trace_simps
      docfx_def pip_freeze_def example_world_def example_fs_def rmtree_def)


text \<open>
  C6, amended. The docs session invokes the documentation generator with warnings as
  errors (\<^verbatim>\<open>-W\<close>), in its list of calls and in every run; the docfx session invokes it
  without that flag.
\<close>

theorem generator_warnings_as_errors:
  "command_args ''sphinx-build'' docs =
     [[''-W'', ''-T'', ''-N'', ''-b'', ''html'', ''-d'', ''docs/_build/doctrees/'', ''docs/'',
       ''docs/_build/html/'']]
   \<and> list_all (\<lambda>args. ''-W'' \<in> set args) (command_args ''sphinx-build'' docs)
   \<and> list_all (\<lambda>args. ''-W'' \<in> set args) (command_args ''sphinx-build'' (issued t docs w))
   \<and> command_args ''sphinx-build'' docfx =
     [[''-T'', ''-N'', ''-D'',
       ''extensions=sphinx.ext.autodoc,sphinx.ext.autosummary,docfx_yaml.extension,sphinx.ext.intersphinx,sphinx.ext.coverage,sphinx.ext.napoleon,sphinx.ext.todo,sphinx.ext.viewcode,recommonmark'',
       ''-b'', ''html'', ''-d'', ''docs/_build/doctrees/'', ''docs/'', ''docs/_build/html/'']]
   \<and> list_all (\<lambda>args. ''-W'' \<notin> set args) (command_args ''sphinx-build'' docfx)
   \<and> list_all (\<lambda>args. ''-W'' \<notin> set args) (command_args ''sphinx-build'' (issued t docfx w))"
proof -
  have a: "command_args ''sphinx-build'' docs =
     [[''-W'', ''-T'', ''-N'', ''-b'', ''html'', ''-d'', ''docs/_build/doctrees/'', ''docs/'',
       ''docs/_build/html/'']]"
    by (simp add: docs_def pip_freeze_def)
  have b: "command_args ''sphinx-build'' docfx =
     [[''-T'', ''-N'', ''-D'',
       ''extensions=sphinx.ext.autodoc,sphinx.ext.autosummary,docfx_yaml.extension,sphinx.ext.intersphinx,sphinx.ext.coverage,sphinx.ext.napoleon,sphinx.ext.todo,sphinx.ext.viewcode,recommonmark'',
       ''-b'', ''html'', ''-d'', ''docs/_build/doctrees/'', ''docs/'', ''docs/_build/html/'']]"
    by (simp add: docfx_def pip_freeze_def)
  have c: "list_all (\<lambda>args. ''-W'' \<in> set args) (command_args ''sphinx-build'' docs)"
    by (simp add: a)
  have d: "list_all (\<lambda>args. ''-W'' \<notin> set args) (command_args ''sphinx-build'' docfx)"
    by (simp add: b)
  show ?thesis
    using a b c d issued_command_args [OF c, of t w] issued_command_args [OF d, of t w]
    by blast
qed

theorem generator_warnings_as_errors_witness:
  "command_args ''sphinx-build'' (issued all_succeed docs example_world) =
     [[''-W'', ''-T'', ''-N'', ''-b'', ''html'', ''-d'', ''docs/_build/doctrees/'', ''docs/'',
       ''docs/_build/html/'']]
   \<and> list_all (\<lambda>args. ''-W'' \<in> set args)
        (command_args ''sphinx-build'' (issued all_succeed docs example_world))"
proof -
  have "issued all_succeed docs example_world = docs"
    by (simp add: issued_def new_trace_Install new_trace_Run new_trace_Rmtree new_trace_simps
        docs_def pip_freeze_def example_world_def example_fs_def rmtree_def)
  then show ?thesis
    using generator_warnings_as_errors [of all_succeed example_world] by simp
qed

section \<open>The system tests without credentials\<close>

lemma environ_get_missing:
  "environ e k = None \<or> environ e k = Some [] \<Longrightarrow> environ_get e k [] = []"
  by (auto simp: environ_get_def)

lemma system_raises_first:
  assumes "environ e ''GOOGLE_APPLICATION_CREDENTIALS'' = None
     \<or> environ e ''GOOGLE_APPLICATION_CREDENTIALS'' = Some []"
  shows "\<exists>rest. system e s =
     Raise (SessionSkip ''Credentials must be set via environment variable.'') # rest"
  using environ_get_missing [OF assms] by (simp add: system_def Let_def)

text \<open>
  C1. When \<^verbatim>\<open>GOOGLE_APPLICATION_CREDENTIALS\<close> is unset or empty, every invocation of
  the system-test session, whatever the tools, the clock and the world, ends in the skip
  raised by \<^verbatim>\<open>session.skip\<close>: its outcome is skipped, not failed.
\<close>

theorem system_skips_without_credentials:
  assumes "environ e ''GOOGLE_APPLICATION_CREDENTIALS'' = None
     \<or> environ e ''GOOGLE_APPLICATION_CREDENTIALS'' = Some []"
  shows "fst (run_session t d (\<lambda>e s f. system e s) e s w) =
           Inl (SessionSkip ''Credentials must be set via environment variable.'')
     \<and> status_of (fst (run_session t d (\<lambda>e s f. system e s) e s w)) = Skipped
     \<and> status_of (fst (run_session t d (\<lambda>e s f. system e s) e s w)) \<noteq> Failed"
proof -
  from system_raises_first [OF assms] obtain rest where
    "system e s = Raise (SessionSkip ''Credentials must be set via environment variable.'') # rest"
    by blast
  then show ?thesis by (simp add: run_session_def calculate_duration_def)
qed

theorem system_skips_without_credentials_witness:
  "status_of (fst (run_session all_succeed 0 (\<lambda>e s f. system e s) example_env example_session
      example_world)) = Skipped
   \<and> status_of (fst (run_session all_succeed 0 (\<lambda>e s f. system e s)
        (example_env\<lparr>environ := [''GOOGLE_APPLICATION_CREDENTIALS'' \<mapsto> []]\<rparr>)
        example_session example_world)) = Skipped"
  using system_skips_without_credentials [of example_env all_succeed 0 example_session example_world]
    system_skips_without_credentials
      [of "example_env\<lparr>environ := [''GOOGLE_APPLICATION_CREDENTIALS'' \<mapsto> []]\<rparr>"
          all_succeed 0 example_session example_world]
  by (simp add: example_env_def)

text \<open>
  C10. When the credentials variable is unset or empty, the skip is the first call of the
  system-test session: the run issues no install and no command, and leaves the file
  system, the trace and the output as they were.
\<close>

theorem system_skip_before_any_command:
  assumes "environ e ''GOOGLE_APPLICATION_CREDENTIALS'' = None
     \<or> environ e ''GOOGLE_APPLICATION_CREDENTIALS'' = Some []"
  shows "exec t (system e s) w =
           (Inl (SessionSkip ''Credentials must be set via environment variable.''), w)
     \<and> snd (run_session t d (\<lambda>e s f. system e s) e s w) = w
     \<and> issued t (system e s) w = []
     \<and> hd (system e s) = Raise (SessionSkip ''Credentials must be set via environment variable.'')"
proof -
  from system_raises_first [OF assms] obtain rest where
    "system e s = Raise (SessionSkip ''Credentials must be set via environment variable.'') # rest"
    by blast
  then show ?thesis by (simp add: run_session_def calculate_duration_def issued_Raise)
qed

theorem system_skip_before_any_command_witness:
  "snd (run_session all_succeed 0 (\<lambda>e s f. system e s) example_env example_session
      example_world) = example_world
   \<and> issued all_succeed (system example_env example_session) example_world = []"
  using system_skip_before_any_command [of example_env all_succeed example_session example_world 0]
  by (simp add: example_env_def)

section \<open>Positional arguments and the test runner\<close>

lemma example_deps:
  "constraint_deps ''# pins\<newline>pandas==1.1.0\<newline>  pyarrow==3.0.0''
     = [''pandas'', ''pyarrow'']"
  by (simp add: constraint_deps_def match_at_def is_space_def)

lemma example_constraints: "constraints_path [''repo''] ''3.9'' = ''/repo/testing/constraints-3.9.txt''"
  by (simp add: constraints_path_def path_div_def parse_parts_def path_str_def)

lemma example_prerelease_issued:
  "issued all_succeed (prerelease_deps example_env example_session example_fs) example_world =
     prerelease_deps example_env example_session example_fs"
  by (simp add: issued_def new_trace_Install new_trace_Run new_trace_simps prerelease_deps_def
      Let_def example_env_def example_fs_def UNIT_TEST_PYTHON_VERSIONS_def example_constraints
      example_deps pip_freeze_def)

text \<open>
  C5, as stated, fails for the prerelease-dependency session: in a run with the positional
  arguments \<^verbatim>\<open>-k foo\<close> in which every command succeeds, the test runner is invoked three
  times, and no invocation ends with those arguments.
\<close>

theorem prerelease_deps_drops_posargs:
  "command_args ''py.test''
     (issued all_succeed (prerelease_deps example_env example_session (fs example_world))
        example_world) =
     [[''-n=auto'', ''tests/unit'', ''-W default::PendingDeprecationWarning''],
      [''-n=auto'', ''tests/system'', ''-W default::PendingDeprecationWarning''],
      [''-n=auto'', ''samples/tests'', ''-W default::PendingDeprecationWarning'']]
   \<and> posargs example_session = [''-k'', ''foo'']
   \<and> \<not> list_all (ends_with (posargs example_session))
        (command_args ''py.test''
           (issued all_succeed (prerelease_deps example_env example_session (fs example_world))
              example_world))"
proof -
  have f: "fs example_world = example_fs" by (simp add: example_world_def)
  have p: "command_args ''py.test'' (prerelease_deps example_env example_session example_fs) =
     [[''-n=auto'', ''tests/unit'', ''-W default::PendingDeprecationWarning''],
      [''-n=auto'', ''tests/system'', ''-W default::PendingDeprecationWarning''],
      [''-n=auto'', ''samples/tests'', ''-W default::PendingDeprecationWarning'']]"
    by (simp add: prerelease_deps_def Let_def example_env_def example_fs_def
        UNIT_TEST_PYTHON_VERSIONS_def example_constraints pip_freeze_def)
  show ?thesis
    unfolding f example_prerelease_issued p
    by (simp add: example_session_def ends_with_def)
qed

lemma prerelease_test_runner:
  assumes "read_text (constraints_path (CURRENT_DIRECTORY e) (UNIT_TEST_PYTHON_VERSIONS ! 0))
      (f (constraints_path (CURRENT_DIRECTORY e) (UNIT_TEST_PYTHON_VERSIONS ! 0))) = Inr content"
  shows "command_args ''py.test'' (prerelease_deps e s f) =
     [[''-n=auto'', ''tests/unit'', ''-W default::PendingDeprecationWarning''],
      [''-n=auto'', ''tests/system'', ''-W default::PendingDeprecationWarning''],
      [''-n=auto'', ''samples/tests'', ''-W default::PendingDeprecationWarning'']]"
  using assms by (simp add: prerelease_deps_def Let_def pip_freeze_def)

lemma prerelease_unreadable:
  assumes "read_text (constraints_path (CURRENT_DIRECTORY e) (UNIT_TEST_PYTHON_VERSIONS ! 0))
      (f (constraints_path (CURRENT_DIRECTORY e) (UNIT_TEST_PYTHON_VERSIONS ! 0))) = Inl err"
  shows "prerelease_deps e s f = [Raise err]"
  using assms by (simp add: prerelease_deps_def Let_def)

lemma prerelease_one_of_three:
  "list_all (\<lambda>args. args \<in> set
       [[''-n=auto'', ''tests/unit'', ''-W default::PendingDeprecationWarning''],
        [''-n=auto'', ''tests/system'', ''-W default::PendingDeprecationWarning''],
        [''-n=auto'', ''samples/tests'', ''-W default::PendingDeprecationWarning'']])
     (command_args ''py.test'' (prerelease_deps e s f))"
proof (cases "read_text (constraints_path (CURRENT_DIRECTORY e) (UNIT_TEST_PYTHON_VERSIONS ! 0))
      (f (constraints_path (CURRENT_DIRECTORY e) (UNIT_TEST_PYTHON_VERSIONS ! 0)))")
  case (Inl err)
  show ?thesis
    unfolding prerelease_unreadable [where e = e and f = f and err = err, OF Inl] by simp
next
  case (Inr content)
  show ?thesis
    unfolding prerelease_test_runner [where e = e and f = f and content = content, OF Inr]
    by simp
qed

lemma command_args_append:
  "command_args c (xs @ ys) = command_args c xs @ command_args c ys"
  by (induction c xs rule: command_args.induct) auto

lemma unit_test_runner:
  "command_args ''py.test'' (default_session e s b) =
     [[''-n=8'', ''--quiet'', ''-W default::PendingDeprecationWarning'',
       ''--cov=google/cloud/bigquery'', ''--cov=tests/unit'', ''--cov-append'',
       ''--cov-config=.coveragerc'', ''--cov-report='', ''--cov-fail-under=0'',
       ''tests/unit''] @ posargs s]"
  by (simp add: default_session_def Let_def command_args_append pip_freeze_def
      uninstall_pandas_gbq_def)

lemma system_test_runner:
  "command_args ''py.test'' (system e s) =
     [[''-n=auto'', ''--quiet'', ''-W default::PendingDeprecationWarning'', ''tests/system'']
        @ posargs s]"
  by (simp add: system_def Let_def command_args_append pip_freeze_def uninstall_pandas_gbq_def)

lemma snippets_test_runner:
  "command_args ''py.test'' (snippets e s) =
     [[''-n=auto'', ''docs/snippets.py''] @ posargs s,
      [''-n=auto'', ''samples'', ''-W default::PendingDeprecationWarning'',
       ''--ignore=samples/desktopapp'', ''--ignore=samples/magics'',
       ''--ignore=samples/geography'', ''--ignore=samples/notebooks'',
       ''--ignore=samples/snippets''] @ posargs s]"
  by (simp add: snippets_def Let_def pip_freeze_def)

text \<open>
  C5, amended. The unit, unit_noextras, system and snippets sessions pass the positional
  arguments, in order, as the last arguments of every invocation of the test runner, in
  their lists of calls and in every run. The prerelease-dependency session, once it has
  read its constraints file, invokes the test runner three times, on \<^verbatim>\<open>tests/unit\<close>,
  \<^verbatim>\<open>tests/system\<close> and \<^verbatim>\<open>samples/tests\<close>, with fixed arguments that do not depend on
  the positional arguments; when it cannot read the file it raises before any call; and
  every invocation of the test runner in any of its runs is one of the three.
\<close>

theorem posargs_forwarded:
  "command_args ''py.test'' (unit e s) =
     [[''-n=8'', ''--quiet'', ''-W default::PendingDeprecationWarning'',
       ''--cov=google/cloud/bigquery'', ''--cov=tests/unit'', ''--cov-append'',
       ''--cov-config=.coveragerc'', ''--cov-report='', ''--cov-fail-under=0'',
       ''tests/unit''] @ posargs s]
   \<and> command_args ''py.test'' (unit_noextras e s) = command_args ''py.test'' (unit e s)
   \<and> command_args ''py.test'' (system e s) =
     [[''-n=auto'', ''--quiet'', ''-W default::PendingDeprecationWarning'', ''tests/system'']
        @ posargs s]
   \<and> command_args ''py.test'' (snippets e s) =
     [[''-n=auto'', ''docs/snippets.py''] @ posargs s,
      [''-n=auto'', ''samples'', ''-W default::PendingDeprecationWarning'',
       ''--ignore=samples/desktopapp'', ''--ignore=samples/magics'',
       ''--ignore=samples/geography'', ''--ignore=samples/notebooks'',
       ''--ignore=samples/snippets''] @ posargs s]
   \<and> list_all (ends_with (posargs s)) (command_args ''py.test'' (issued t (unit e s) w))
   \<and> list_all (ends_with (posargs s)) (command_args ''py.test'' (issued t (unit_noextras e s) w))
   \<and> list_all (ends_with (posargs s)) (command_args ''py.test'' (issued t (system e s) w))
   \<and> list_all (ends_with (posargs s)) (command_args ''py.test'' (issued t (snippets e s) w))
   \<and> command_args ''py.test'' (prerelease_deps e s f) =
       command_args ''py.test'' (prerelease_deps e (s\<lparr>posargs := q\<rparr>) f)
   \<and> (read_text (constraints_path (CURRENT_DIRECTORY e) (UNIT_TEST_PYTHON_VERSIONS ! 0))
         (f (constraints_path (CURRENT_DIRECTORY e) (UNIT_TEST_PYTHON_VERSIONS ! 0))) = Inr content
       \<longrightarrow> command_args ''py.test'' (prerelease_deps e s f) =
         [[''-n=auto'', ''tests/unit'', ''-W default::PendingDeprecationWarning''],
          [''-n=auto'', ''tests/system'', ''-W default::PendingDeprecationWarning''],
          [''-n=auto'', ''samples/tests'', ''-W default::PendingDeprecationWarning'']])
   \<and> (read_text (constraints_path (CURRENT_DIRECTORY e) (UNIT_TEST_PYTHON_VERSIONS ! 0))
         (f (constraints_path (CURRENT_DIRECTORY e) (UNIT_TEST_PYTHON_VERSIONS ! 0))) = Inl err
       \<longrightarrow> prerelease_deps e s f = [Raise err])
   \<and> list_all (\<lambda>args. args \<in> set
         [[''-n=auto'', ''tests/unit'', ''-W default::PendingDeprecationWarning''],
          [''-n=auto'', ''tests/system'', ''-W default::PendingDeprecationWarning''],
          [''-n=auto'', ''samples/tests'', ''-W default::PendingDeprecationWarning'']])
       (command_args ''py.test'' (issued t (prerelease_deps e s f) w))"
proof -
  have u: "command_args ''py.test'' (unit e s) =
     [[''-n=8'', ''--quiet'', ''-W default::PendingDeprecationWarning'',
       ''--cov=google/cloud/bigquery'', ''--cov=tests/unit'', ''--cov-append'',
       ''--cov-config=.coveragerc'', ''--cov-report='', ''--cov-fail-under=0'',
       ''tests/unit''] @ posargs s]"
    unfolding unit_def by (rule unit_test_runner)
  have n: "command_args ''py.test'' (unit_noextras e s) = command_args ''py.test'' (unit e s)"
    by (simp add: unit_noextras_def unit_def command_args_append unit_test_runner)
  note sy = system_test_runner [of e s]
  note sn = snippets_test_runner [of e s]
  have eu: "list_all (ends_with (posargs s)) (command_args ''py.test'' (unit e s))"
    unfolding u by (simp add: ends_with_def)
  have en: "list_all (ends_with (posargs s)) (command_args ''py.test'' (unit_noextras e s))"
    unfolding n by (rule eu)
  have es: "list_all (ends_with (posargs s)) (command_args ''py.test'' (system e s))"
    unfolding sy by (simp add: ends_with_def)
  have ep: "list_all (ends_with (posargs s)) (command_args ''py.test'' (snippets e s))"
    unfolding sn by (simp add: ends_with_def)
  have pr: "command_args ''py.test'' (prerelease_deps e s f) =
       command_args ''py.test'' (prerelease_deps e (s\<lparr>posargs := q\<rparr>) f)"
    by (simp add: prerelease_deps_def)
  show ?thesis
    by (intro conjI impI)
      (rule u n sy sn pr issued_command_args [OF eu] issued_command_args [OF en]
         issued_command_args [OF es] issued_command_args [OF ep]
         issued_command_args [OF prerelease_one_of_three]
       | erule prerelease_test_runner [where e = e and f = f and content = content]
           prerelease_unreadable [where e = e and f = f and err = err])+
qed

theorem posargs_forwarded_witness:
  "command_args ''py.test''
     (issued all_succeed (system (example_env\<lparr>environ := [''GOOGLE_APPLICATION_CREDENTIALS'' \<mapsto> ''key.json'']\<rparr>)
        example_session) example_world) =
     [[''-n=auto'', ''--quiet'', ''-W default::PendingDeprecationWarning'', ''tests/system'',
       ''-k'', ''foo'']]
   \<and> list_all (ends_with [''-k'', ''foo''])
       (command_args ''py.test'' (issued all_succeed (unit example_env example_session) example_world))
   \<and> command_args ''py.test'' (prerelease_deps example_env example_session (fs example_world)) =
     [[''-n=auto'', ''tests/unit'', ''-W default::PendingDeprecationWarning''],
      [''-n=auto'', ''tests/system'', ''-W default::PendingDeprecationWarning''],
      [''-n=auto'', ''samples/tests'', ''-W default::PendingDeprecationWarning'']]"
proof -
  have c: "constraints_path [''repo''] ''3.9'' = ''/repo/testing/constraints-3.9.txt''"
    by (simp add: constraints_path_def path_div_def parse_parts_def path_str_def)
  have i: "issued all_succeed (system (example_env\<lparr>environ := [''GOOGLE_APPLICATION_CREDENTIALS'' \<mapsto> ''key.json'']\<rparr>)
        example_session) example_world =
      system (example_env\<lparr>environ := [''GOOGLE_APPLICATION_CREDENTIALS'' \<mapsto> ''key.json'']\<rparr>) example_session"
    by (simp add: issued_def new_trace_Install new_trace_Run new_trace_simps system_def
      Let_def example_env_def example_session_def SYSTEM_TEST_PYTHON_VERSIONS_def c
      pip_freeze_def uninstall_pandas_gbq_def environ_get_def)
  have p: "posargs example_session = [''-k'', ''foo'']" by (simp add: example_session_def)
  have r: "read_text
      (constraints_path (CURRENT_DIRECTORY example_env) (UNIT_TEST_PYTHON_VERSIONS ! 0))
      (fs example_world
        (constraints_path (CURRENT_DIRECTORY example_env) (UNIT_TEST_PYTHON_VERSIONS ! 0))) =
      Inr ''# pins\<newline>pandas==1.1.0\<newline>  pyarrow==3.0.0''"
    by (simp add: example_env_def example_world_def example_fs_def
        UNIT_TEST_PYTHON_VERSIONS_def c)
  note th = posargs_forwarded [where e = example_env and s = example_session
      and t = all_succeed and w = example_world and f = "fs example_world"
      and content = "''# pins\<newline>pandas==1.1.0\<newline>  pyarrow==3.0.0''"]
  have "read_text
      (constraints_path (CURRENT_DIRECTORY example_env) (UNIT_TEST_PYTHON_VERSIONS ! 0))
      (fs example_world
        (constraints_path (CURRENT_DIRECTORY example_env) (UNIT_TEST_PYTHON_VERSIONS ! 0))) =
      Inr ''# pins\<newline>pandas==1.1.0\<newline>  pyarrow==3.0.0''
    \<longrightarrow> command_args ''py.test'' (prerelease_deps example_env example_session (fs example_world)) =
     [[''-n=auto'', ''tests/unit'', ''-W default::PendingDeprecationWarning''],
      [''-n=auto'', ''tests/system'', ''-W default::PendingDeprecationWarning''],
      [''-n=auto'', ''samples/tests'', ''-W default::PendingDeprecationWarning'']]"
    by (rule th [THEN conjunct2, THEN conjunct2, THEN conjunct2, THEN conjunct2, THEN conjunct2, THEN conjunct2, THEN conjunct2, THEN conjunct2, THEN conjunct2, THEN conjunct1])
  then have pr: "command_args ''py.test''
      (prerelease_deps example_env example_session (fs example_world)) =
     [[''-n=auto'', ''tests/unit'', ''-W default::PendingDeprecationWarning''],
      [''-n=auto'', ''tests/system'', ''-W default::PendingDeprecationWarning''],
      [''-n=auto'', ''samples/tests'', ''-W default::PendingDeprecationWarning'']]"
    using r by (rule mp)
  have sy: "command_args ''py.test''
      (system (example_env\<lparr>environ := [''GOOGLE_APPLICATION_CREDENTIALS'' \<mapsto> ''key.json'']\<rparr>)
         example_session) =
     [[''-n=auto'', ''--quiet'', ''-W default::PendingDeprecationWarning'', ''tests/system'']
        @ posargs example_session]"
    by (rule posargs_forwarded [where e = "example_env\<lparr>environ := [''GOOGLE_APPLICATION_CREDENTIALS'' \<mapsto> ''key.json'']\<rparr>"
        and s = example_session, THEN conjunct2, THEN conjunct2, THEN conjunct1])
  have un: "list_all (ends_with (posargs example_session))
       (command_args ''py.test'' (issued all_succeed (unit example_env example_session) example_world))"
    by (rule th [THEN conjunct2, THEN conjunct2, THEN conjunct2, THEN conjunct2, THEN conjunct1])
  show ?thesis
    unfolding i using sy un pr unfolding p by simp
qed

section \<open>The constraints file of a session\<close>

lemma split_on_absent: "d \<notin> set s \<Longrightarrow> split_on d s = [s]"
  by (induction s) auto

lemma constraints_path_plain:
  assumes "CHR ''/'' \<notin> set v"
  shows "constraints_path cur v =
     concat (map (\<lambda>c. CHR ''/'' # c) cur) @ ''/testing/constraints-'' @ v @ ''.txt''"
proof -
  have "CHR ''/'' \<notin> set (''constraints-'' @ v @ ''.txt'')" using assms by simp
  then have "split_on (CHR ''/'') (''constraints-'' @ v @ ''.txt'') = [''constraints-'' @ v @ ''.txt'']"
    by (rule split_on_absent)
  then have p: "parse_parts (''constraints-'' @ v @ ''.txt'') = [''constraints-'' @ v @ ''.txt'']"
    by (simp add: parse_parts_def)
  have t: "path_div cur ''testing'' = cur @ [''testing'']"
    by (simp add: path_div_def parse_parts_def)
  have "path_div (path_div cur ''testing'') (''constraints-'' @ v @ ''.txt'')
      = cur @ [''testing'', ''constraints-'' @ v @ ''.txt'']"
    unfolding t using p by (simp add: path_div_def)
  then show ?thesis by (simp add: constraints_path_def path_str_def)
qed

lemma constraint_files_append:
  "constraint_files (xs @ ys) = constraint_files xs @ constraint_files ys"
  by (induction xs rule: constraint_files.induct) auto

lemma default_constraint_files:
  "set (constraint_files (default_session e s b)) =
     {constraints_path (CURRENT_DIRECTORY e) (python s)}"
  by (simp add: default_session_def Let_def constraint_files_append pip_freeze_def
      uninstall_pandas_gbq_def)

lemma system_constraint_files:
  "set (constraint_files (system e s)) = {constraints_path (CURRENT_DIRECTORY e) (python s)}"
  by (simp add: system_def Let_def constraint_files_append pip_freeze_def
      uninstall_pandas_gbq_def)

lemma snippets_constraint_files:
  "set (constraint_files (snippets e s)) = {constraints_path (CURRENT_DIRECTORY e) (python s)}"
  by (simp add: snippets_def Let_def pip_freeze_def)



text \<open>
  C2. For every version of the unit-test list, and of the system-test list that the system
  and snippets sessions share, the constraints path is the directory of the noxfile
  followed by \<^verbatim>\<open>/testing/constraints-<version>.txt\<close>; it is a function of the directory
  and the version alone, and it is the one constraints file each of these sessions passes
  to its installs.
\<close>

theorem constraints_path_convention:
  "(\<forall>v \<in> set UNIT_TEST_PYTHON_VERSIONS.
      constraints_path cur v =
        concat (map (\<lambda>c. CHR ''/'' # c) cur) @ ''/testing/constraints-'' @ v @ ''.txt'')
   \<and> (\<forall>v \<in> set SYSTEM_TEST_PYTHON_VERSIONS.
      constraints_path cur v =
        concat (map (\<lambda>c. CHR ''/'' # c) cur) @ ''/testing/constraints-'' @ v @ ''.txt'')
   \<and> set (constraint_files (unit e s)) = {constraints_path (CURRENT_DIRECTORY e) (python s)}
   \<and> set (constraint_files (unit_noextras e s)) =
        {constraints_path (CURRENT_DIRECTORY e) (python s)}
   \<and> set (constraint_files (system e s)) = {constraints_path (CURRENT_DIRECTORY e) (python s)}
   \<and> set (constraint_files (snippets e s)) = {constraints_path (CURRENT_DIRECTORY e) (python s)}"
proof (intro conjI ballI)
  fix v assume "v \<in> set UNIT_TEST_PYTHON_VERSIONS"
  then have "CHR ''/'' \<notin> set v"
    by (auto simp: UNIT_TEST_PYTHON_VERSIONS_def)
  then show "constraints_path cur v =
        concat (map (\<lambda>c. CHR ''/'' # c) cur) @ ''/testing/constraints-'' @ v @ ''.txt''"
    by (rule constraints_path_plain)
next
  fix v assume "v \<in> set SYSTEM_TEST_PYTHON_VERSIONS"
  then have "CHR ''/'' \<notin> set v"
    by (auto simp: SYSTEM_TEST_PYTHON_VERSIONS_def)
  then show "constraints_path cur v =
        concat (map (\<lambda>c. CHR ''/'' # c) cur) @ ''/testing/constraints-'' @ v @ ''.txt''"
    by (rule constraints_path_plain)
next
  show "set (constraint_files (unit e s)) = {constraints_path (CURRENT_DIRECTORY e) (python s)}"
    unfolding unit_def by (rule default_constraint_files)
next
  show "set (constraint_files (unit_noextras e s)) =
        {constraints_path (CURRENT_DIRECTORY e) (python s)}"
    by (simp add: unit_noextras_def constraint_files_append default_constraint_files)
next
  show "set (constraint_files (system e s)) = {constraints_path (CURRENT_DIRECTORY e) (python s)}"
    by (rule system_constraint_files)
next
  show "set (constraint_files (snippets e s)) = {constraints_path (CURRENT_DIRECTORY e) (python s)}"
    by (rule snippets_constraint_files)
qed


theorem constraints_path_convention_witness:
  "''3.12'' \<in> set UNIT_TEST_PYTHON_VERSIONS
   \<and> constraints_path [''home'', ''kokoro'', ''python-bigquery''] ''3.12'' =
       ''/home/kokoro/python-bigquery/testing/constraints-3.12.txt''
   \<and> set (constraint_files (unit example_env example_session)) =
       {''/repo/testing/constraints-3.9.txt''}"
proof -
  note th = constraints_path_convention
    [of "[''home'', ''kokoro'', ''python-bigquery'']" example_env example_session]
  have m: "''3.12'' \<in> set UNIT_TEST_PYTHON_VERSIONS"
    by (simp add: UNIT_TEST_PYTHON_VERSIONS_def)
  have a: "constraints_path [''home'', ''kokoro'', ''python-bigquery''] ''3.12'' =
      concat (map (\<lambda>c. CHR ''/'' # c) [''home'', ''kokoro'', ''python-bigquery''])
        @ ''/testing/constraints-'' @ ''3.12'' @ ''.txt''"
    using th [THEN conjunct1] m by (rule bspec)
  have b: "set (constraint_files (unit example_env example_session)) =
      {constraints_path (CURRENT_DIRECTORY example_env) (python example_session)}"
    using th by (elim conjE)
  have c: "constraints_path (CURRENT_DIRECTORY example_env) (python example_session) =
      ''/repo/testing/constraints-3.9.txt''"
    by (simp add: example_env_def example_session_def constraints_path_def path_div_def
        parse_parts_def path_str_def)
  show ?thesis
    unfolding b c using m a by simp
qed

section \<open>The extras of the lowest interpreter version\<close>

lemma lowest_version: "UNIT_TEST_PYTHON_VERSIONS ! 0 = ''3.9''"
  by (simp add: UNIT_TEST_PYTHON_VERSIONS_def)

lemma requested_lowest: "requested_extras ''.[bqstorage,pandas,ipywidgets,geopandas,matplotlib,tqdm,opentelemetry,bigquery_v2]'' =
     [''bqstorage'', ''pandas'', ''ipywidgets'', ''geopandas'', ''matplotlib'', ''tqdm'',
      ''opentelemetry'', ''bigquery_v2'']"
  by (simp add: requested_extras_def)

lemma requested_all: "requested_extras ''.[all]'' = [''all'']"
  by (simp add: requested_extras_def)


lemma unit_lowest:
  "python s = ''3.9'' \<Longrightarrow>
   unit e s =
     [Install [''pytest'', ''google-cloud-testutils'', ''pytest-cov'', ''pytest-xdist'',
               ''freezegun'', ''-c'', constraints_path (CURRENT_DIRECTORY e) (python s)]]
     @ [Install [''-e'',
          ''.[bqstorage,pandas,ipywidgets,geopandas,matplotlib,tqdm,opentelemetry,bigquery_v2]'',
          ''-c'', constraints_path (CURRENT_DIRECTORY e) (python s)],
        uninstall_pandas_gbq]
     @ [pip_freeze,
        Run ([''py.test'', ''-n=8'', ''--quiet'', ''-W default::PendingDeprecationWarning'',
              ''--cov=google/cloud/bigquery'', ''--cov=tests/unit'', ''--cov-append'',
              ''--cov-config=.coveragerc'', ''--cov-report='', ''--cov-fail-under=0'',
              ''tests/unit''] @ posargs s)]"
  by (simp add: unit_def default_session_def Let_def lowest_version)

lemma unit_other:
  "python s \<noteq> ''3.9'' \<Longrightarrow>
   unit e s =
     [Install [''pytest'', ''google-cloud-testutils'', ''pytest-cov'', ''pytest-xdist'',
               ''freezegun'', ''-c'', constraints_path (CURRENT_DIRECTORY e) (python s)],
      Install [''-e'', ''.[all]'', ''-c'', constraints_path (CURRENT_DIRECTORY e) (python s)],
      pip_freeze,
      Run ([''py.test'', ''-n=8'', ''--quiet'', ''-W default::PendingDeprecationWarning'',
            ''--cov=google/cloud/bigquery'', ''--cov=tests/unit'', ''--cov-append'',
            ''--cov-config=.coveragerc'', ''--cov-report='', ''--cov-fail-under=0'',
            ''tests/unit''] @ posargs s)]"
  by (simp add: unit_def default_session_def Let_def lowest_version)


lemma lowest_extras:
  "python s = ''3.9'' \<Longrightarrow>
   installed_extras (unit e s) =
     [''bqstorage'', ''pandas'', ''ipywidgets'', ''geopandas'', ''matplotlib'', ''tqdm'',
      ''opentelemetry'', ''bigquery_v2'']"
  by (simp add: unit_lowest requested_lowest resolve_extras_def uninstall_pandas_gbq_def pip_freeze_def)

lemma other_extras:
  "python s \<noteq> ''3.9'' \<Longrightarrow> installed_extras (unit e s) = all_extra"
  by (simp add: unit_other requested_all resolve_extras_def pip_freeze_def)

lemma other_keeps_pandas_gbq:
  "python s \<noteq> ''3.9'' \<Longrightarrow> uninstall_pandas_gbq \<notin> set (unit e s)"
  by (simp add: unit_other uninstall_pandas_gbq_def pip_freeze_def)


lemma insert_one_strict:
  "x \<notin> set (xs @ ys) \<Longrightarrow> set (xs @ ys) \<subset> set (xs @ x # ys)"
  by auto

lemma insert_one_difference:
  "x \<notin> set (xs @ ys) \<Longrightarrow> set (xs @ x # ys) - set (xs @ ys) = {x}"
  by auto

lemma all_extra_split:
  "all_extra =
     [''bqstorage'', ''pandas'', ''ipywidgets'', ''geopandas''] @ ''ipython'' #
     [''matplotlib'', ''tqdm'', ''opentelemetry'', ''bigquery_v2'']"
  by (simp add: all_extra_def)

lemma lowest_split:
  "[''bqstorage'', ''pandas'', ''ipywidgets'', ''geopandas'', ''matplotlib'', ''tqdm'',
    ''opentelemetry'', ''bigquery_v2''] =
   [''bqstorage'', ''pandas'', ''ipywidgets'', ''geopandas''] @
   [''matplotlib'', ''tqdm'', ''opentelemetry'', ''bigquery_v2'']"
  by simp

lemma ipython_omitted:
  "''ipython'' \<notin> set ([''bqstorage'', ''pandas'', ''ipywidgets'', ''geopandas''] @
     [''matplotlib'', ''tqdm'', ''opentelemetry'', ''bigquery_v2''])"
  by simp

lemma extras_strictly_narrower:
  "set [''bqstorage'', ''pandas'', ''ipywidgets'', ''geopandas'', ''matplotlib'', ''tqdm'',
        ''opentelemetry'', ''bigquery_v2''] \<subset> set all_extra"
  unfolding all_extra_split lowest_split by (rule insert_one_strict [OF ipython_omitted])

lemma extras_difference:
  "set all_extra - set [''bqstorage'', ''pandas'', ''ipywidgets'', ''geopandas'', ''matplotlib'',
      ''tqdm'', ''opentelemetry'', ''bigquery_v2''] = {''ipython''}"
  unfolding all_extra_split lowest_split by (rule insert_one_difference [OF ipython_omitted])


lemma unit_lowest_calls:
  "python s = ''3.9'' \<Longrightarrow>
   unit e s =
     [Install [''pytest'', ''google-cloud-testutils'', ''pytest-cov'', ''pytest-xdist'',
               ''freezegun'', ''-c'', constraints_path (CURRENT_DIRECTORY e) (python s)],
      Install [''-e'',
        ''.[bqstorage,pandas,ipywidgets,geopandas,matplotlib,tqdm,opentelemetry,bigquery_v2]'',
        ''-c'', constraints_path (CURRENT_DIRECTORY e) (python s)],
      Run [''python'', ''-m'', ''pip'', ''uninstall'', ''pandas-gbq'', ''-y''],
      Run [''python'', ''-m'', ''pip'', ''freeze''],
      Run ([''py.test'', ''-n=8'', ''--quiet'', ''-W default::PendingDeprecationWarning'',
            ''--cov=google/cloud/bigquery'', ''--cov=tests/unit'', ''--cov-append'',
            ''--cov-config=.coveragerc'', ''--cov-report='', ''--cov-fail-under=0'',
            ''tests/unit''] @ posargs s)]"
  by (simp add: unit_lowest uninstall_pandas_gbq_def pip_freeze_def)

lemma unit_other_calls:
  "python s \<noteq> ''3.9'' \<Longrightarrow>
   unit e s =
     [Install [''pytest'', ''google-cloud-testutils'', ''pytest-cov'', ''pytest-xdist'',
               ''freezegun'', ''-c'', constraints_path (CURRENT_DIRECTORY e) (python s)],
      Install [''-e'', ''.[all]'', ''-c'', constraints_path (CURRENT_DIRECTORY e) (python s)],
      Run [''python'', ''-m'', ''pip'', ''freeze''],
      Run ([''py.test'', ''-n=8'', ''--quiet'', ''-W default::PendingDeprecationWarning'',
            ''--cov=google/cloud/bigquery'', ''--cov=tests/unit'', ''--cov-append'',
            ''--cov-config=.coveragerc'', ''--cov-report='', ''--cov-fail-under=0'',
            ''tests/unit''] @ posargs s)]"
  by (simp add: unit_other pip_freeze_def)

lemma other_no_uninstall:
  "python s \<noteq> ''3.9'' \<Longrightarrow>
   Run [''python'', ''-m'', ''pip'', ''uninstall'', ''pandas-gbq'', ''-y''] \<notin> set (unit e s)"
  by (simp add: unit_other_calls)

text \<open>
  C3. With extras enabled, the unit-test session on the lowest interpreter version (the
  first of the unit-test list) installs the eight extras its install target names, a
  strict subset of the extras of \<^verbatim>\<open>.[all]\<close> that it installs on any other listed version:
  exactly \<^verbatim>\<open>ipython\<close> is left out. On the lowest version the call that follows this
  install is \<^verbatim>\<open>python -m pip uninstall pandas-gbq -y\<close>; on the other versions the session
  makes no such call. Every run issues an initial part of these calls, so the uninstall
  never comes before the install.
\<close>

theorem lowest_version_narrower_extras:
  assumes "python s = UNIT_TEST_PYTHON_VERSIONS ! 0"
    and "v \<in> set UNIT_TEST_PYTHON_VERSIONS"
    and "v \<noteq> UNIT_TEST_PYTHON_VERSIONS ! 0"
  shows "installed_extras (unit e s) =
        [''bqstorage'', ''pandas'', ''ipywidgets'', ''geopandas'', ''matplotlib'', ''tqdm'',
         ''opentelemetry'', ''bigquery_v2'']
    \<and> installed_extras (unit e (s\<lparr>python := v\<rparr>)) = all_extra
    \<and> set (installed_extras (unit e s)) \<subset> set (installed_extras (unit e (s\<lparr>python := v\<rparr>)))
    \<and> set (installed_extras (unit e (s\<lparr>python := v\<rparr>))) - set (installed_extras (unit e s))
        = {''ipython''}
    \<and> unit e s =
        [Install [''pytest'', ''google-cloud-testutils'', ''pytest-cov'', ''pytest-xdist'',
                  ''freezegun'', ''-c'', constraints_path (CURRENT_DIRECTORY e) (python s)],
         Install [''-e'',
           ''.[bqstorage,pandas,ipywidgets,geopandas,matplotlib,tqdm,opentelemetry,bigquery_v2]'',
           ''-c'', constraints_path (CURRENT_DIRECTORY e) (python s)],
         Run [''python'', ''-m'', ''pip'', ''uninstall'', ''pandas-gbq'', ''-y''],
         Run [''python'', ''-m'', ''pip'', ''freeze''],
         Run ([''py.test'', ''-n=8'', ''--quiet'', ''-W default::PendingDeprecationWarning'',
               ''--cov=google/cloud/bigquery'', ''--cov=tests/unit'', ''--cov-append'',
               ''--cov-config=.coveragerc'', ''--cov-report='', ''--cov-fail-under=0'',
               ''tests/unit''] @ posargs s)]
    \<and> unit e (s\<lparr>python := v\<rparr>) =
        [Install [''pytest'', ''google-cloud-testutils'', ''pytest-cov'', ''pytest-xdist'',
                  ''freezegun'', ''-c'', constraints_path (CURRENT_DIRECTORY e) v],
         Install [''-e'', ''.[all]'', ''-c'', constraints_path (CURRENT_DIRECTORY e) v],
         Run [''python'', ''-m'', ''pip'', ''freeze''],
         Run ([''py.test'', ''-n=8'', ''--quiet'', ''-W default::PendingDeprecationWarning'',
               ''--cov=google/cloud/bigquery'', ''--cov=tests/unit'', ''--cov-append'',
               ''--cov-config=.coveragerc'', ''--cov-report='', ''--cov-fail-under=0'',
               ''tests/unit''] @ posargs s)]
    \<and> Run [''python'', ''-m'', ''pip'', ''uninstall'', ''pandas-gbq'', ''-y'']
          \<notin> set (unit e (s\<lparr>python := v\<rparr>))
    \<and> (\<exists>k. issued t (unit e s) w = take k (unit e s))"
proof (intro conjI)
  have lo: "python s = ''3.9''" using assms(1) by (simp add: lowest_version)
  have hi: "python (s\<lparr>python := v\<rparr>) \<noteq> ''3.9''" using assms(3) by (simp add: lowest_version)
  note a = lowest_extras [OF lo, of e]
  note b = other_extras [OF hi, of e]
  show "installed_extras (unit e s) =
        [''bqstorage'', ''pandas'', ''ipywidgets'', ''geopandas'', ''matplotlib'', ''tqdm'',
         ''opentelemetry'', ''bigquery_v2'']"
    by (rule a)
  show "installed_extras (unit e (s\<lparr>python := v\<rparr>)) = all_extra"
    by (rule b)
  show "set (installed_extras (unit e s)) \<subset> set (installed_extras (unit e (s\<lparr>python := v\<rparr>)))"
    unfolding a b by (rule extras_strictly_narrower)
  show "set (installed_extras (unit e (s\<lparr>python := v\<rparr>))) - set (installed_extras (unit e s))
        = {''ipython''}"
    unfolding a b by (rule extras_difference)
  show "unit e s =
        [Install [''pytest'', ''google-cloud-testutils'', ''pytest-cov'', ''pytest-xdist'',
                  ''freezegun'', ''-c'', constraints_path (CURRENT_DIRECTORY e) (python s)],
         Install [''-e'',
           ''.[bqstorage,pandas,ipywidgets,geopandas,matplotlib,tqdm,opentelemetry,bigquery_v2]'',
           ''-c'', constraints_path (CURRENT_DIRECTORY e) (python s)],
         Run [''python'', ''-m'', ''pip'', ''uninstall'', ''pandas-gbq'', ''-y''],
         Run [''python'', ''-m'', ''pip'', ''freeze''],
         Run ([''py.test'', ''-n=8'', ''--quiet'', ''-W default::PendingDeprecationWarning'',
               ''--cov=google/cloud/bigquery'', ''--cov=tests/unit'', ''--cov-append'',
               ''--cov-config=.coveragerc'', ''--cov-report='', ''--cov-fail-under=0'',
               ''tests/unit''] @ posargs s)]"
    by (rule unit_lowest_calls [OF lo])
  show "unit e (s\<lparr>python := v\<rparr>) =
        [Install [''pytest'', ''google-cloud-testutils'', ''pytest-cov'', ''pytest-xdist'',
                  ''freezegun'', ''-c'', constraints_path (CURRENT_DIRECTORY e) v],
         Install [''-e'', ''.[all]'', ''-c'', constraints_path (CURRENT_DIRECTORY e) v],
         Run [''python'', ''-m'', ''pip'', ''freeze''],
         Run ([''py.test'', ''-n=8'', ''--quiet'', ''-W default::PendingDeprecationWarning'',
               ''--cov=google/cloud/bigquery'', ''--cov=tests/unit'', ''--cov-append'',
               ''--cov-config=.coveragerc'', ''--cov-report='', ''--cov-fail-under=0'',
               ''tests/unit''] @ posargs s)]"
    using unit_other_calls [OF hi, of e] by simp
  show "Run [''python'', ''-m'', ''pip'', ''uninstall'', ''pandas-gbq'', ''-y'']
          \<notin> set (unit e (s\<lparr>python := v\<rparr>))"
    by (rule other_no_uninstall [OF hi])
  show "\<exists>k. issued t (unit e s) w = take k (unit e s)"
    by (rule issued_prefix)
qed

theorem lowest_version_narrower_extras_witness:
  "python example_session = UNIT_TEST_PYTHON_VERSIONS ! 0
   \<and> ''3.12'' \<in> set UNIT_TEST_PYTHON_VERSIONS
   \<and> set (installed_extras (unit example_env example_session))
       \<subset> set (installed_extras (unit example_env (example_session\<lparr>python := ''3.12''\<rparr>)))
   \<and> issued all_succeed (unit example_env example_session) example_world ! 1 =
       Install [''-e'',
         ''.[bqstorage,pandas,ipywidgets,geopandas,matplotlib,tqdm,opentelemetry,bigquery_v2]'',
         ''-c'', ''/repo/testing/constraints-3.9.txt'']
   \<and> issued all_succeed (unit example_env example_session) example_world ! 2 =
       Run [''python'', ''-m'', ''pip'', ''uninstall'', ''pandas-gbq'', ''-y'']
   \<and> Run [''python'', ''-m'', ''pip'', ''uninstall'', ''pandas-gbq'', ''-y'']
       \<notin> set (unit example_env (example_session\<lparr>python := ''3.12''\<rparr>))"
proof -
  have h1: "python example_session = UNIT_TEST_PYTHON_VERSIONS ! 0"
    by (simp add: example_session_def UNIT_TEST_PYTHON_VERSIONS_def)
  have h2: "''3.12'' \<in> set UNIT_TEST_PYTHON_VERSIONS"
    by (simp add: UNIT_TEST_PYTHON_VERSIONS_def)
  have h3: "''3.12'' \<noteq> UNIT_TEST_PYTHON_VERSIONS ! 0"
    by (simp add: UNIT_TEST_PYTHON_VERSIONS_def)
  note th = lowest_version_narrower_extras [OF h1 h2 h3, of example_env]
  have c: "constraints_path (CURRENT_DIRECTORY example_env) (python example_session) =
      ''/repo/testing/constraints-3.9.txt''"
    by (simp add: example_env_def example_session_def constraints_path_def path_div_def
        parse_parts_def path_str_def)
  note u = th [THEN conjunct2, THEN conjunct2, THEN conjunct2, THEN conjunct2, THEN conjunct1]
  have i: "issued all_succeed (unit example_env example_session) example_world =
      unit example_env example_session"
    unfolding u c
    by (simp add: issued_def new_trace_Install new_trace_Run new_trace_simps example_session_def)
  have n1: "unit example_env example_session ! 1 =
       Install [''-e'',
         ''.[bqstorage,pandas,ipywidgets,geopandas,matplotlib,tqdm,opentelemetry,bigquery_v2]'',
         ''-c'', ''/repo/testing/constraints-3.9.txt'']"
    unfolding u c by simp
  have n2: "unit example_env example_session ! 2 =
       Run [''python'', ''-m'', ''pip'', ''uninstall'', ''pandas-gbq'', ''-y'']"
    unfolding u c by simp
  note o = th [THEN conjunct2, THEN conjunct2, THEN conjunct2, THEN conjunct2, THEN conjunct2,
      THEN conjunct2, THEN conjunct1]
  show ?thesis
    unfolding i n1 n2
    using h1 h2 th [THEN conjunct2, THEN conjunct2, THEN conjunct1] o
    by (intro conjI) simp_all
qed

section \<open>Requesting a session by name\<close>

lemma registry_names:
  "map fst (map (\<lambda>(n, pythons, fn). (n, fn)) xs) = map fst xs"
  by (induction xs) auto

lemma registry_entry:
  "(n, pythons, fn) \<in> set xs \<Longrightarrow> (n, fn) \<in> set (map (\<lambda>(n, pythons, fn). (n, fn)) xs)"
  by (induction xs) auto

lemma registered_names:
  "map fst registered_sessions =
     [''unit'', ''unit_noextras'', ''mypy'', ''pytype'', ''system'', ''mypy_samples'',
      ''snippets'', ''cover'', ''prerelease_deps'', ''lint'', ''lint_setup_py'', ''blacken'',
      ''docs'', ''docfx'']"
  by (simp add: registered_sessions_def)

lemma registered_distinct: "distinct (map fst registered_sessions)"
  unfolding registered_names by simp

lemma find_session_unknown:
  "name \<notin> set (map fst registered_sessions) \<Longrightarrow> find_session name = None"
  unfolding find_session_def map_of_eq_None_iff
  using registry_names [of registered_sessions] by (metis set_map)

lemma find_session_registered:
  assumes "(name, pythons, fn) \<in> set registered_sessions"
  shows "find_session name = Some fn"
proof -
  have "distinct (map fst (map (\<lambda>(n, pythons, fn). (n, fn)) registered_sessions))"
    unfolding registry_names by (rule registered_distinct)
  moreover have "(name, fn) \<in> set (map (\<lambda>(n, pythons, fn). (n, fn)) registered_sessions)"
    using assms by (rule registry_entry)
  ultimately show ?thesis
    unfolding find_session_def by (rule map_of_is_SomeI)
qed


lemma invoke_registered:
  assumes "find_session name = Some fn"
  shows "fst (invoke t d e name s w) = Executed (fst (exec t (fn e s (fs w)) w))
    \<and> fs (snd (invoke t d e name s w)) = fs (snd (exec t (fn e s (fs w)) w))
    \<and> trace (snd (invoke t d e name s w)) = trace (snd (exec t (fn e s (fs w)) w))
    \<and> stdout (snd (invoke t d e name s w)) =
        (if isl (fst (exec t (fn e s (fs w)) w)) then stdout (snd (exec t (fn e s (fs w)) w))
         else stdout (snd (exec t (fn e s (fs w)) w)) @ [duration_message d])"
proof -
  obtain r w' where x: "exec t (fn e s (fs w)) w = (r, w')"
    by (cases "exec t (fn e s (fs w)) w")
  show ?thesis
    using assms x by (cases r) (simp_all add: invoke_def run_session_def calculate_duration_def)
qed

text \<open>
  C9. A requested name that is not the name of a registered session yields the
  "no such session" error with a non-zero exit and leaves the world as it was. A
  registered name is located and its session function is executed: the outcome, the file
  system and the commands in the trace are those of running the calls of that function,
  and the timing line is printed after a normal return. Each of the fourteen names is
  bound to the session function of the same name, no name is registered twice, and every
  name of the default list \<^verbatim>\<open>nox.options.sessions\<close> is registered.
\<close>

theorem unknown_session_is_an_error:
  "(name \<notin> set (map fst registered_sessions) \<longrightarrow>
      invoke t d e name s w = (NoSuchSession name, w)
      \<and> \<not> exit_zero (fst (invoke t d e name s w)))
   \<and> ((name, pythons, fn) \<in> set registered_sessions \<longrightarrow>
      fst (invoke t d e name s w) = Executed (fst (exec t (fn e s (fs w)) w))
      \<and> fs (snd (invoke t d e name s w)) = fs (snd (exec t (fn e s (fs w)) w))
      \<and> trace (snd (invoke t d e name s w)) = trace (snd (exec t (fn e s (fs w)) w))
      \<and> stdout (snd (invoke t d e name s w)) =
          (if isl (fst (exec t (fn e s (fs w)) w)) then stdout (snd (exec t (fn e s (fs w)) w))
           else stdout (snd (exec t (fn e s (fs w)) w)) @ [duration_message d]))
   \<and> map (\<lambda>(n, pythons, fn). (n, fn e s f)) registered_sessions =
       [(''unit'', unit e s), (''unit_noextras'', unit_noextras e s), (''mypy'', mypy),
        (''pytype'', pytype), (''system'', system e s), (''mypy_samples'', mypy_samples e),
        (''snippets'', snippets e s), (''cover'', cover),
        (''prerelease_deps'', prerelease_deps e s f), (''lint'', lint),
        (''lint_setup_py'', lint_setup_py), (''blacken'', blacken), (''docs'', docs),
        (''docfx'', docfx)]
   \<and> distinct (map fst registered_sessions)
   \<and> set nox_options_sessions \<subseteq> set (map fst registered_sessions)"
proof (intro conjI impI)
  show "map (\<lambda>(n, pythons, fn). (n, fn e s f)) registered_sessions =
       [(''unit'', unit e s), (''unit_noextras'', unit_noextras e s), (''mypy'', mypy),
        (''pytype'', pytype), (''system'', system e s), (''mypy_samples'', mypy_samples e),
        (''snippets'', snippets e s), (''cover'', cover),
        (''prerelease_deps'', prerelease_deps e s f), (''lint'', lint),
        (''lint_setup_py'', lint_setup_py), (''blacken'', blacken), (''docs'', docs),
        (''docfx'', docfx)]"
    by (simp add: registered_sessions_def)
  show "distinct (map fst registered_sessions)" by (rule registered_distinct)
  show "set nox_options_sessions \<subseteq> set (map fst registered_sessions)"
    unfolding registered_names by (simp add: nox_options_sessions_def)
next
  assume "name \<notin> set (map fst registered_sessions)"
  then have "find_session name = None" by (rule find_session_unknown)
  then show i: "invoke t d e name s w = (NoSuchSession name, w)"
    by (simp add: invoke_def)
  show "\<not> exit_zero (fst (invoke t d e name s w))"
    unfolding i by simp
next
  assume "(name, pythons, fn) \<in> set registered_sessions"
  then have r: "find_session name = Some fn" by (rule find_session_registered)
  note x = invoke_registered [OF r, of t d e s w]
  show "fst (invoke t d e name s w) = Executed (fst (exec t (fn e s (fs w)) w))"
    by (rule x [THEN conjunct1])
  show "fs (snd (invoke t d e name s w)) = fs (snd (exec t (fn e s (fs w)) w))"
    by (rule x [THEN conjunct2, THEN conjunct1])
  show "trace (snd (invoke t d e name s w)) = trace (snd (exec t (fn e s (fs w)) w))"
    by (rule x [THEN conjunct2, THEN conjunct2, THEN conjunct1])
  show "stdout (snd (invoke t d e name s w)) =
          (if isl (fst (exec t (fn e s (fs w)) w)) then stdout (snd (exec t (fn e s (fs w)) w))
           else stdout (snd (exec t (fn e s (fs w)) w)) @ [duration_message d])"
    by (rule x [THEN conjunct2, THEN conjunct2, THEN conjunct2])
qed

theorem unknown_session_is_an_error_witness:
  "invoke all_succeed 0 example_env ''units'' example_session example_world =
     (NoSuchSession ''units'', example_world)
   \<and> \<not> exit_zero (fst (invoke all_succeed 0 example_env ''units'' example_session example_world))
   \<and> fst (invoke all_succeed 0 example_env ''blacken'' example_session example_world) =
       Executed (Inr ())
   \<and> map fst (trace (snd (invoke all_succeed 0 example_env ''blacken'' example_session
        example_world))) =
       [Install [''black==23.7.0''], Run [''python'', ''-m'', ''pip'', ''freeze''],
        Run [''black'', ''benchmark'', ''docs'', ''google'', ''samples'', ''samples/tests'',
             ''tests'', ''noxfile.py'', ''setup.py'']]"
proof -
  have a: "''units'' \<notin> set (map fst registered_sessions)"
    unfolding registered_names by simp
  have b: "(''blacken'', [DEFAULT_PYTHON_VERSION], \<lambda>e s f. blacken) \<in> set registered_sessions"
    by (simp add: registered_sessions_def)
  have c: "fst (exec all_succeed blacken example_world) = Inr ()
      \<and> map fst (trace (snd (exec all_succeed blacken example_world))) =
       [Install [''black==23.7.0''], Run [''python'', ''-m'', ''pip'', ''freeze''],
        Run [''black'', ''benchmark'', ''docs'', ''google'', ''samples'', ''samples/tests'',
             ''tests'', ''noxfile.py'', ''setup.py'']]"
    by (simp add: blacken_def pip_freeze_def BLACK_VERSION_def BLACK_PATHS_def
        record_step_def example_world_def)
  note u = unknown_session_is_an_error
    [where name = "''units''" and t = all_succeed and d = 0 and e = example_env
      and s = example_session and w = example_world, THEN conjunct1, rule_format, OF a]
  note r = unknown_session_is_an_error
    [where name = "''blacken''" and t = all_succeed and d = 0 and e = example_env
      and s = example_session and w = example_world, THEN conjunct2, THEN conjunct1,
      rule_format, OF b]
  show ?thesis
    using u r c by simp
qed

section \<open>Rebuilding the documentation\<close>



























end
